theory Spec2Isabelle
  imports Complex_Main
begin

section \<open>Conventions of the embedding\<close>

text \<open>
  The Go package \<open>models\<close> is embedded function by function. Each method with a pointer
  receiver becomes a function from the receiver's record to the updated record.

  \<^item> \<open>float64\<close> is modelled by \<open>real\<close>: the arithmetic is exact, and NaN, the infinities
    and rounding are not represented. The counterexamples below use small integers, and
    the values they state are computed without rounding in float64 as well.
  \<^item> A pointer field (\<open>*float64\<close>) is an \<open>option\<close>; \<open>nil\<close> is \<open>None\<close>.
  \<^item> The string-typed enumerations (\<open>TradeStatus\<close>, \<open>PositionStatus\<close>, ...) stay
    strings, so that values outside the declared constants exist in the model as they do
    in Go.
  \<^item> \<open>time.Now()\<close> is a parameter \<open>now\<close> of the function that reads the clock; instants
    and durations are integers (nanoseconds).
  \<^item> Field names carry the name of their struct as a prefix, except for \<open>Position\<close>.
\<close>

type_synonym time = int
type_synonym duration = int

section \<open>Trade\<close>

type_synonym TradeSide = string
type_synonym TradeStatus = string

abbreviation TradeSideBuy :: TradeSide where "TradeSideBuy \<equiv> ''buy''"
abbreviation TradeSideSell :: TradeSide where "TradeSideSell \<equiv> ''sell''"

abbreviation TradeStatusPending :: TradeStatus where "TradeStatusPending \<equiv> ''pending''"
abbreviation TradeStatusSubmitted :: TradeStatus where "TradeStatusSubmitted \<equiv> ''submitted''"
abbreviation TradeStatusExecuted :: TradeStatus where "TradeStatusExecuted \<equiv> ''executed''"
abbreviation TradeStatusConfirmed :: TradeStatus where "TradeStatusConfirmed \<equiv> ''confirmed''"
abbreviation TradeStatusFailed :: TradeStatus where "TradeStatusFailed \<equiv> ''failed''"
abbreviation TradeStatusCancelled :: TradeStatus where "TradeStatusCancelled \<equiv> ''cancelled''"
abbreviation TradeStatusPartial :: TradeStatus where "TradeStatusPartial \<equiv> ''partial''"
abbreviation TradeStatusExpired :: TradeStatus where "TradeStatusExpired \<equiv> ''expired''"

text \<open>
  The fields of \<open>Trade\<close> that \<open>CalculateActualSlippage\<close> and \<open>CanRetry\<close> read.
  \<open>RetryCount\<close> and \<open>MaxRetries\<close> are Go \<open>int\<close>s that are only compared.
\<close>

record Trade =
  trade_Side :: TradeSide
  trade_Status :: TradeStatus
  trade_Price :: real
  trade_ExecutedPrice :: real
  trade_RetryCount :: int
  trade_MaxRetries :: int

text \<open>
  A float64 division by zero does not yield a number in Go (it yields an infinity or
  NaN), whereas \<open>x / 0 = 0\<close> in HOL. \<open>float_div\<close> makes that case visible: \<open>None\<close>
  stands for the quotient by zero.
\<close>

definition float_div :: "real \<Rightarrow> real \<Rightarrow> real option" where
  "float_div x y = (if y = 0 then None else Some (x / y))"

text \<open>
  \<open>CalculateActualSlippage\<close>: the early return on a zero requested or executed price,
  then the quotient by the requested price, times 100. The result is \<open>None\<close> exactly
  when the division is made with a zero divisor.
\<close>

definition CalculateActualSlippage :: "Trade \<Rightarrow> real option" where
  "CalculateActualSlippage t =
     (if trade_Price t = 0 \<or> trade_ExecutedPrice t = 0 then Some 0
      else if trade_Side t = TradeSideBuy then
        map_option (\<lambda>q. q * 100)
          (float_div (trade_ExecutedPrice t - trade_Price t) (trade_Price t))
      else
        map_option (\<lambda>q. q * 100)
          (float_div (trade_Price t - trade_ExecutedPrice t) (trade_Price t)))"

definition CanRetry :: "Trade \<Rightarrow> bool" where
  "CanRetry t \<longleftrightarrow> trade_Status t = TradeStatusFailed \<and> trade_RetryCount t < trade_MaxRetries t"

section \<open>Token risk scoring\<close>

type_synonym AuditStatus = string
type_synonym RiskLevel = string

abbreviation AuditNotAudited :: AuditStatus where "AuditNotAudited \<equiv> ''not_audited''"
abbreviation AuditPending :: AuditStatus where "AuditPending \<equiv> ''pending''"
abbreviation AuditPassed :: AuditStatus where "AuditPassed \<equiv> ''passed''"
abbreviation AuditFailed :: AuditStatus where "AuditFailed \<equiv> ''failed''"
abbreviation AuditPartial :: AuditStatus where "AuditPartial \<equiv> ''partial''"

abbreviation RiskLevelVeryLow :: RiskLevel where "RiskLevelVeryLow \<equiv> ''very_low''"
abbreviation RiskLevelLow :: RiskLevel where "RiskLevelLow \<equiv> ''low''"
abbreviation RiskLevelMedium :: RiskLevel where "RiskLevelMedium \<equiv> ''medium''"
abbreviation RiskLevelHigh :: RiskLevel where "RiskLevelHigh \<equiv> ''high''"
abbreviation RiskLevelVeryHigh :: RiskLevel where "RiskLevelVeryHigh \<equiv> ''very_high''"
abbreviation RiskLevelExtreme :: RiskLevel where "RiskLevelExtreme \<equiv> ''extreme''"

text \<open>The parts of \<open>SecurityInfo\<close>, \<open>SocialInfo\<close>, \<open>LiquidityPool\<close> and \<open>Token\<close> that the
  risk score reads or writes.\<close>

record SecurityInfo =
  sec_HoneypotRisk :: bool
  sec_LiquidityLocked :: bool
  sec_OwnershipRenounced :: bool
  sec_AuditStatus :: AuditStatus

record SocialInfo =
  social_SocialScore :: real

record LiquidityPool =
  pool_TotalLiquidity :: real

record Token =
  token_MarketCap :: real
  token_LaunchDate :: "time option"
  token_SecurityInfo :: SecurityInfo
  token_LiquidityPools :: "LiquidityPool list"
  token_SocialInfo :: SocialInfo
  token_HolderCount :: int
  token_RiskScore :: real
  token_RiskLevel :: RiskLevel
  token_VolatilityScore :: real

text \<open>\<open>time.Hour\<close> in nanoseconds, and \<open>time.Since\<close> against the supplied clock. Go
  saturates the difference at the ends of int64; the thresholds it is compared with
  (one day, seven days) lie far inside that range.\<close>

definition Hour :: duration where
  "Hour = 3600000000000"

definition time_Since :: "time \<Rightarrow> time \<Rightarrow> duration" where
  "time_Since now t = now - t"

text \<open>\<open>getTotalLiquidity\<close>: the loop adds the pools' liquidity to a total that starts at 0.\<close>

definition getTotalLiquidity :: "Token \<Rightarrow> real" where
  "getTotalLiquidity t = foldl (\<lambda>total pool. total + pool_TotalLiquidity pool) 0 (token_LiquidityPools t)"

text \<open>The running score of \<open>calculateRiskScore\<close> just before it is clamped: the
  baseline 5 and then one adjustment per block of the source, in its order.\<close>

definition riskScoreSum :: "time \<Rightarrow> Token \<Rightarrow> real" where
  "riskScoreSum now t =
     (let score = 5;
          score = (if sec_HoneypotRisk (token_SecurityInfo t) then score + 3 else score);
          score = (if \<not> sec_LiquidityLocked (token_SecurityInfo t) then score + 2 else score);
          score = (if \<not> sec_OwnershipRenounced (token_SecurityInfo t) then score + 1.5 else score);
          score = (if token_MarketCap t < 10000 then score + 2
                   else if token_MarketCap t < 100000 then score + 1 else score);
          score = (if token_VolatilityScore t > 80 then score + 1.5
                   else if token_VolatilityScore t > 60 then score + 1 else score);
          score = (case token_LaunchDate t of
                     None \<Rightarrow> score
                   | Some launch \<Rightarrow>
                       (let age = time_Since now launch in
                        if age < 24 * Hour then score + 2
                        else if age < 7 * 24 * Hour then score + 1 else score));
          totalLiquidity = getTotalLiquidity t;
          score = (if totalLiquidity < 1 then score + 3
                   else if totalLiquidity < 10 then score + 2
                   else if totalLiquidity < 100 then score + 1 else score);
          score = (if token_HolderCount t < 10 then score + 2
                   else if token_HolderCount t < 100 then score + 1 else score);
          score = (if sec_AuditStatus (token_SecurityInfo t) = AuditPassed then score - 1
                   else if sec_AuditStatus (token_SecurityInfo t) = AuditFailed then score + 2
                   else if sec_AuditStatus (token_SecurityInfo t) = AuditNotAudited then score + 0.5
                   else score);
          score = (if social_SocialScore (token_SocialInfo t) < 3 then score + 1
                   else if social_SocialScore (token_SocialInfo t) > 7 then score - 0.5 else score)
      in score)"

definition calculateRiskScore :: "time \<Rightarrow> Token \<Rightarrow> Token" where
  "calculateRiskScore now t =
     (let score = riskScoreSum now t;
          score = (if score < 0 then 0 else if score > 10 then 10 else score)
      in t\<lparr>token_RiskScore := score\<rparr>)"

definition updateRiskLevel :: "Token \<Rightarrow> Token" where
  "updateRiskLevel t =
     (if token_RiskScore t \<le> 2 then t\<lparr>token_RiskLevel := RiskLevelVeryLow\<rparr>
      else if token_RiskScore t \<le> 4 then t\<lparr>token_RiskLevel := RiskLevelLow\<rparr>
      else if token_RiskScore t \<le> 6 then t\<lparr>token_RiskLevel := RiskLevelMedium\<rparr>
      else if token_RiskScore t \<le> 8 then t\<lparr>token_RiskLevel := RiskLevelHigh\<rparr>
      else if token_RiskScore t \<le> 9 then t\<lparr>token_RiskLevel := RiskLevelVeryHigh\<rparr>
      else t\<lparr>token_RiskLevel := RiskLevelExtreme\<rparr>)"

text \<open>The order of the six bands, in which the monotonicity of the level is stated: the
  position of a level in the declaration of the \<open>RiskLevel\<close> constants.\<close>

definition riskLevelRank :: "RiskLevel \<Rightarrow> nat" where
  "riskLevelRank l =
     (if l = RiskLevelVeryLow then 0
      else if l = RiskLevelLow then 1
      else if l = RiskLevelMedium then 2
      else if l = RiskLevelHigh then 3
      else if l = RiskLevelVeryHigh then 4
      else 5)"

definition sixRiskLevels :: "RiskLevel list" where
  "sixRiskLevels = [RiskLevelVeryLow, RiskLevelLow, RiskLevelMedium, RiskLevelHigh,
     RiskLevelVeryHigh, RiskLevelExtreme]"

text \<open>Two tokens to evaluate the scorer on. \<open>riskyToken\<close> raises every signal: the sum is
  \<open>5 + 3 + 2 + 1.5 + 2 + 1.5 + 2 + 3 + 2 + 2 + 1 = 25\<close>. \<open>calmToken s\<close> carries the stored
  score \<open>s\<close>; it is locked, renounced and audited, but has no market cap and no pool, so
  its sum is \<open>5 + 2 + 3 - 1 - 0.5 = 8.5\<close>.\<close>

definition riskyToken :: Token where
  "riskyToken = \<lparr>token_MarketCap = 5000, token_LaunchDate = Some (99 * Hour),
     token_SecurityInfo = \<lparr>sec_HoneypotRisk = True, sec_LiquidityLocked = False,
       sec_OwnershipRenounced = False, sec_AuditStatus = AuditFailed\<rparr>,
     token_LiquidityPools = [\<lparr>pool_TotalLiquidity = 0.5\<rparr>],
     token_SocialInfo = \<lparr>social_SocialScore = 1\<rparr>, token_HolderCount = 5,
     token_RiskScore = 0, token_RiskLevel = [], token_VolatilityScore = 90\<rparr>"

definition calmToken :: "real \<Rightarrow> Token" where
  "calmToken s = \<lparr>token_MarketCap = 0, token_LaunchDate = None,
     token_SecurityInfo = \<lparr>sec_HoneypotRisk = False, sec_LiquidityLocked = True,
       sec_OwnershipRenounced = True, sec_AuditStatus = AuditPassed\<rparr>,
     token_LiquidityPools = [], token_SocialInfo = \<lparr>social_SocialScore = 8\<rparr>,
     token_HolderCount = 500, token_RiskScore = s, token_RiskLevel = [],
     token_VolatilityScore = 10\<rparr>"

section \<open>Position\<close>

type_synonym PositionStatus = string
type_synonym PositionSide = string

abbreviation PositionStatusOpen :: PositionStatus where "PositionStatusOpen \<equiv> ''open''"
abbreviation PositionStatusClosed :: PositionStatus where "PositionStatusClosed \<equiv> ''closed''"
abbreviation PositionStatusPartial :: PositionStatus where "PositionStatusPartial \<equiv> ''partial''"
abbreviation PositionStatusStopped :: PositionStatus where "PositionStatusStopped \<equiv> ''stopped''"
abbreviation PositionStatusExpired :: PositionStatus where "PositionStatusExpired \<equiv> ''expired''"
abbreviation PositionStatusLiquidated :: PositionStatus where
  "PositionStatusLiquidated \<equiv> ''liquidated''"

abbreviation PositionSideLong :: PositionSide where "PositionSideLong \<equiv> ''long''"
abbreviation PositionSideShort :: PositionSide where "PositionSideShort \<equiv> ''short''"

record PartialExit =
  exit_Timestamp :: time
  exit_Quantity :: real
  exit_Price :: real
  exit_Value :: real
  exit_Fees :: real
  exit_PnL :: real
  exit_PnLPercent :: real
  exit_Reason :: string
  exit_TradeID :: nat
  exit_TxHash :: string

record PositionAdjustment =
  adj_Timestamp :: time
  adj_Type :: string
  adj_OldValue :: "real option"
  adj_NewValue :: real
  adj_Reason :: string
  adj_Automatic :: bool
  adj_TriggerPrice :: "real option"

record DCAEntry =
  dca_Timestamp :: time
  dca_Quantity :: real
  dca_Price :: real
  dca_Value :: real
  dca_Fees :: real
  dca_TradeID :: nat
  dca_TxHash :: string
  dca_Strategy :: string

text \<open>
  The fields of \<open>Position\<close> that its hooks and methods read or write. The references to
  user, token and trades, the exit transaction data, the market context, the automation
  flags and the metadata are touched by none of them and are left out.
\<close>

record Position =
  Status :: PositionStatus
  Side :: PositionSide
  EntryPrice :: real
  EntryQuantity :: real
  EntryValue :: real
  EntryFees :: real
  EntryTime :: time
  CurrentPrice :: real
  CurrentQuantity :: real
  CurrentValue :: real
  LastPriceUpdate :: time
  ExitValue :: "real option"
  ExitFees :: "real option"
  ExitTime :: "time option"
  StopLoss :: "real option"
  TakeProfit :: "real option"
  TrailingStop :: "real option"
  TrailingStopPrice :: "real option"
  UnrealizedPnL :: real
  UnrealizedPnLPercent :: real
  RealizedPnL :: real
  RealizedPnLPercent :: real
  TotalFees :: real
  ROI :: real
  HighestValue :: real
  LowestValue :: real
  HighestPrice :: real
  LowestPrice :: real
  MaxDrawdown :: real
  MaxGainPercent :: real
  PartialExits :: "PartialExit list"
  Adjustments :: "PositionAdjustment list"
  DCAEntries :: "DCAEntry list"
  HoldDuration :: duration

text \<open>The zero value of the struct: what Go allocates before the caller fills in fields.\<close>

definition zeroPosition :: Position where
  "zeroPosition = \<lparr>Status = [], Side = [], EntryPrice = 0, EntryQuantity = 0, EntryValue = 0,
     EntryFees = 0, EntryTime = 0, CurrentPrice = 0, CurrentQuantity = 0, CurrentValue = 0,
     LastPriceUpdate = 0, ExitValue = None, ExitFees = None, ExitTime = None, StopLoss = None,
     TakeProfit = None, TrailingStop = None, TrailingStopPrice = None, UnrealizedPnL = 0,
     UnrealizedPnLPercent = 0, RealizedPnL = 0, RealizedPnLPercent = 0, TotalFees = 0, ROI = 0,
     HighestValue = 0, LowestValue = 0, HighestPrice = 0, LowestPrice = 0, MaxDrawdown = 0,
     MaxGainPercent = 0, PartialExits = [], Adjustments = [], DCAEntries = [],
     HoldDuration = 0\<rparr>"

text \<open>\<open>Time.IsZero\<close>: instants are counted from the zero instant.\<close>

definition IsZero :: "time \<Rightarrow> bool" where
  "IsZero t \<longleftrightarrow> t = 0"

subsection \<open>Hooks and private helpers\<close>

definition BeforeCreate :: "time \<Rightarrow> Position \<Rightarrow> Position" where
  "BeforeCreate now p =
     (let p = (if IsZero (EntryTime p) then p\<lparr>EntryTime := now\<rparr> else p);
          p = p\<lparr>CurrentPrice := EntryPrice p\<rparr>;
          p = p\<lparr>CurrentQuantity := EntryQuantity p\<rparr>;
          p = p\<lparr>CurrentValue := EntryValue p\<rparr>;
          p = p\<lparr>LastPriceUpdate := EntryTime p\<rparr>;
          p = p\<lparr>HighestValue := EntryValue p\<rparr>;
          p = p\<lparr>LowestValue := EntryValue p\<rparr>;
          p = p\<lparr>HighestPrice := EntryPrice p\<rparr>;
          p = p\<lparr>LowestPrice := EntryPrice p\<rparr>;
          p = p\<lparr>TotalFees := EntryFees p\<rparr>
      in p)"

text \<open>\<open>updatePerformanceMetrics\<close>. Both divisions are by an \<open>EntryValue\<close> that was just
  tested to be non-zero.\<close>

definition updatePerformanceMetrics :: "Position \<Rightarrow> Position" where
  "updatePerformanceMetrics p =
     (if Status p = PositionStatusOpen then
        (let p = p\<lparr>UnrealizedPnL := (CurrentPrice p - EntryPrice p) * CurrentQuantity p\<rparr>;
             p = (if EntryValue p \<noteq> 0
                  then p\<lparr>UnrealizedPnLPercent := (UnrealizedPnL p / EntryValue p) * 100\<rparr> else p);
             p = (if EntryValue p \<noteq> 0
                  then p\<lparr>ROI := ((CurrentValue p - EntryValue p - TotalFees p) / EntryValue p) * 100\<rparr>
                  else p)
         in p)
      else if Status p = PositionStatusClosed then
        (case ExitValue p of
           None \<Rightarrow> p
         | Some exitValue \<Rightarrow>
            (let p = p\<lparr>RealizedPnL := exitValue - EntryValue p - TotalFees p\<rparr>;
                 p = (if EntryValue p \<noteq> 0
                      then p\<lparr>RealizedPnLPercent := (RealizedPnL p / EntryValue p) * 100\<rparr> else p);
                 p = (if EntryValue p \<noteq> 0
                      then p\<lparr>ROI := (RealizedPnL p / EntryValue p) * 100\<rparr> else p)
             in p))
      else p)"

text \<open>\<open>updateTrackingValues\<close>. The drawdown is divided by a \<open>HighestValue\<close> that was
  tested to be positive, the gain by an \<open>EntryValue\<close> that was tested to be positive.\<close>

definition updateTrackingValues :: "Position \<Rightarrow> Position" where
  "updateTrackingValues p =
     (let p = (if CurrentValue p > HighestValue p then p\<lparr>HighestValue := CurrentValue p\<rparr> else p);
          p = (if CurrentPrice p > HighestPrice p then p\<lparr>HighestPrice := CurrentPrice p\<rparr> else p);
          p = (if CurrentValue p < LowestValue p then p\<lparr>LowestValue := CurrentValue p\<rparr> else p);
          p = (if CurrentPrice p < LowestPrice p then p\<lparr>LowestPrice := CurrentPrice p\<rparr> else p);
          p = (if HighestValue p > 0 then
                 (let drawdown = ((HighestValue p - CurrentValue p) / HighestValue p) * 100
                  in if drawdown > MaxDrawdown p then p\<lparr>MaxDrawdown := drawdown\<rparr> else p)
               else p);
          p = (if EntryValue p > 0 then
                 (let maxGain = ((HighestValue p - EntryValue p) / EntryValue p) * 100
                  in if maxGain > MaxGainPercent p then p\<lparr>MaxGainPercent := maxGain\<rparr> else p)
               else p)
      in p)"

definition calculateTotalFees :: "Position \<Rightarrow> Position" where
  "calculateTotalFees p =
     (let p = p\<lparr>TotalFees := EntryFees p\<rparr>;
          p = (case ExitFees p of None \<Rightarrow> p | Some f \<Rightarrow> p\<lparr>TotalFees := TotalFees p + f\<rparr>);
          p = p\<lparr>TotalFees := foldl (\<lambda>total x. total + exit_Fees x) (TotalFees p) (PartialExits p)\<rparr>;
          p = p\<lparr>TotalFees := foldl (\<lambda>total e. total + dca_Fees e) (TotalFees p) (DCAEntries p)\<rparr>
      in p)"

definition BeforeUpdate :: "time \<Rightarrow> Position \<Rightarrow> Position" where
  "BeforeUpdate now p =
     (let p = (if Status p = PositionStatusOpen then p\<lparr>HoldDuration := time_Since now (EntryTime p)\<rparr>
               else (case ExitTime p of
                       None \<Rightarrow> p
                     | Some x \<Rightarrow> p\<lparr>HoldDuration := x - EntryTime p\<rparr>));
          p = updatePerformanceMetrics p;
          p = updateTrackingValues p;
          p = calculateTotalFees p
      in p)"

subsection \<open>Public methods\<close>

definition UpdateCurrentPrice :: "time \<Rightarrow> real \<Rightarrow> Position \<Rightarrow> Position" where
  "UpdateCurrentPrice now price p =
     (let p = p\<lparr>CurrentPrice := price\<rparr>;
          p = p\<lparr>CurrentValue := price * CurrentQuantity p\<rparr>;
          p = p\<lparr>LastPriceUpdate := now\<rparr>;
          p = updatePerformanceMetrics p;
          p = updateTrackingValues p
      in p)"

definition ShouldTriggerStopLoss :: "Position \<Rightarrow> bool" where
  "ShouldTriggerStopLoss p =
     (case StopLoss p of
        None \<Rightarrow> False
      | Some stop \<Rightarrow>
          if Status p \<noteq> PositionStatusOpen then False
          else if Side p = PositionSideLong then CurrentPrice p \<le> stop
          else if Side p = PositionSideShort then CurrentPrice p \<ge> stop
          else False)"

definition UpdateTrailingStop :: "Position \<Rightarrow> Position" where
  "UpdateTrailingStop p =
     (case TrailingStop p of
        None \<Rightarrow> p
      | Some trailing \<Rightarrow>
          if Status p \<noteq> PositionStatusOpen then p
          else
            (let trailingPercent = trailing / 100 in
             if Side p = PositionSideLong then
               (let newStopPrice = CurrentPrice p * (1 - trailingPercent) in
                case TrailingStopPrice p of
                  None \<Rightarrow> p\<lparr>TrailingStopPrice := Some newStopPrice\<rparr>
                | Some old \<Rightarrow>
                    if newStopPrice > old then p\<lparr>TrailingStopPrice := Some newStopPrice\<rparr> else p)
             else if Side p = PositionSideShort then
               (let newStopPrice = CurrentPrice p * (1 + trailingPercent) in
                case TrailingStopPrice p of
                  None \<Rightarrow> p\<lparr>TrailingStopPrice := Some newStopPrice\<rparr>
                | Some old \<Rightarrow>
                    if newStopPrice < old then p\<lparr>TrailingStopPrice := Some newStopPrice\<rparr> else p)
             else p))"

text \<open>\<open>AddPartialExit\<close> has no result and no error path: every exit is appended and
  applied. The second test, \<open>len(p.PartialExits) > 0\<close>, is made on the list after the
  append.\<close>

definition AddPartialExit :: "PartialExit \<Rightarrow> Position \<Rightarrow> Position" where
  "AddPartialExit exit p =
     (let p = p\<lparr>PartialExits := PartialExits p @ [exit]\<rparr>;
          p = p\<lparr>CurrentQuantity := CurrentQuantity p - exit_Quantity exit\<rparr>;
          p = p\<lparr>CurrentValue := CurrentPrice p * CurrentQuantity p\<rparr>;
          p = p\<lparr>RealizedPnL := RealizedPnL p + exit_PnL exit\<rparr>
      in if CurrentQuantity p \<le> 0 then
           p\<lparr>Status := PositionStatusClosed, CurrentQuantity := 0, CurrentValue := 0\<rparr>
         else if length (PartialExits p) > 0 then p\<lparr>Status := PositionStatusPartial\<rparr>
         else p)"

text \<open>\<open>AddDCAEntry\<close>. The quotient \<open>totalValue / totalQuantity\<close> is not guarded: where
  \<open>totalQuantity\<close> is 0, Go stores an infinity or NaN in \<open>EntryPrice\<close>, which \<open>real\<close> does
  not represent. Nothing is stated below about the entry price after such a step.\<close>

definition AddDCAEntry :: "DCAEntry \<Rightarrow> Position \<Rightarrow> Position" where
  "AddDCAEntry entry p =
     (let p = p\<lparr>DCAEntries := DCAEntries p @ [entry]\<rparr>;
          totalValue = EntryValue p + dca_Value entry;
          totalQuantity = EntryQuantity p + dca_Quantity entry;
          p = p\<lparr>EntryPrice := totalValue / totalQuantity\<rparr>;
          p = p\<lparr>EntryQuantity := totalQuantity\<rparr>;
          p = p\<lparr>EntryValue := totalValue\<rparr>;
          p = p\<lparr>CurrentQuantity := totalQuantity\<rparr>;
          p = p\<lparr>EntryFees := EntryFees p + dca_Fees entry\<rparr>
      in p)"

definition AddAdjustment :: "PositionAdjustment \<Rightarrow> Position \<Rightarrow> Position" where
  "AddAdjustment adjustment p =
     (let p = p\<lparr>Adjustments := Adjustments p @ [adjustment]\<rparr>
      in if adj_Type adjustment = ''stop_loss'' then p\<lparr>StopLoss := Some (adj_NewValue adjustment)\<rparr>
         else if adj_Type adjustment = ''take_profit''
           then p\<lparr>TakeProfit := Some (adj_NewValue adjustment)\<rparr>
         else if adj_Type adjustment = ''trailing_stop''
           then p\<lparr>TrailingStop := Some (adj_NewValue adjustment)\<rparr>
         else p)"

subsection \<open>Sequences of operations\<close>

text \<open>The mutating methods as a datatype of calls, and the effect of a list of calls made
  one after the other on the same position.\<close>

datatype PositionOp =
    OpUpdateCurrentPrice time real
  | OpUpdateTrailingStop
  | OpAddPartialExit PartialExit
  | OpAddDCAEntry DCAEntry
  | OpAddAdjustment PositionAdjustment

fun applyOp :: "Position \<Rightarrow> PositionOp \<Rightarrow> Position" where
  "applyOp p (OpUpdateCurrentPrice now price) = UpdateCurrentPrice now price p"
| "applyOp p OpUpdateTrailingStop = UpdateTrailingStop p"
| "applyOp p (OpAddPartialExit exit) = AddPartialExit exit p"
| "applyOp p (OpAddDCAEntry entry) = AddDCAEntry entry p"
| "applyOp p (OpAddAdjustment adjustment) = AddAdjustment adjustment p"

fun applyOps :: "Position \<Rightarrow> PositionOp list \<Rightarrow> Position" where
  "applyOps p [] = p"
| "applyOps p (x # xs) = applyOps (applyOp p x) xs"

text \<open>The quantity sold so far: the sum over the recorded partial exits.\<close>

definition exitedQuantity :: "Position \<Rightarrow> real" where
  "exitedQuantity p = sum_list (map exit_Quantity (PartialExits p))"

text \<open>A price feed: each tick carries the clock reading and the price. \<open>feedPrices\<close>
  applies \<open>UpdateCurrentPrice\<close> per tick; \<open>trailPrices\<close> follows every price update by
  \<open>UpdateTrailingStop\<close>.\<close>

fun feedPrices :: "Position \<Rightarrow> (time \<times> real) list \<Rightarrow> Position" where
  "feedPrices p [] = p"
| "feedPrices p ((now, price) # ticks) = feedPrices (UpdateCurrentPrice now price p) ticks"

fun trailPrices :: "Position \<Rightarrow> (time \<times> real) list \<Rightarrow> Position" where
  "trailPrices p [] = p"
| "trailPrices p ((now, price) # ticks) =
     trailPrices (UpdateTrailingStop (UpdateCurrentPrice now price p)) ticks"

text \<open>The call sequences for which quantity conservation is stated: exits and DCA entries
  carry positive quantities, and a DCA entry is only added while no partial exit has been
  recorded.\<close>

fun opAdmissible :: "Position \<Rightarrow> PositionOp \<Rightarrow> bool" where
  "opAdmissible p (OpAddPartialExit exit) = (0 < exit_Quantity exit)"
| "opAdmissible p (OpAddDCAEntry entry) = (0 < dca_Quantity entry \<and> PartialExits p = [])"
| "opAdmissible p (OpUpdateCurrentPrice now price) = True"
| "opAdmissible p OpUpdateTrailingStop = True"
| "opAdmissible p (OpAddAdjustment adjustment) = True"

fun opsAdmissible :: "Position \<Rightarrow> PositionOp list \<Rightarrow> bool" where
  "opsAdmissible p [] = True"
| "opsAdmissible p (x # xs) = (opAdmissible p x \<and> opsAdmissible (applyOp p x) xs)"

text \<open>The call sequences in which every DCA entry leaves the total entry quantity
  non-negative.\<close>

fun dcaTotalsNonneg :: "Position \<Rightarrow> PositionOp list \<Rightarrow> bool" where
  "dcaTotalsNonneg p [] = True"
| "dcaTotalsNonneg p (x # xs) =
     ((case x of OpAddDCAEntry entry \<Rightarrow> 0 \<le> EntryQuantity p + dca_Quantity entry | _ \<Rightarrow> True)
      \<and> dcaTotalsNonneg (applyOp p x) xs)"

text \<open>The three shapes a position takes along an admissible call sequence: untouched by
  exits, partly sold, sold out.\<close>

definition quantityInv :: "Position \<Rightarrow> bool" where
  "quantityInv p \<longleftrightarrow>
     (Status p = PositionStatusOpen \<and> PartialExits p = []
        \<and> CurrentQuantity p = EntryQuantity p \<and> 0 < CurrentQuantity p)
     \<or> (Status p = PositionStatusPartial \<and> PartialExits p \<noteq> []
        \<and> exitedQuantity p + CurrentQuantity p = EntryQuantity p \<and> 0 < CurrentQuantity p)
     \<or> (Status p = PositionStatusClosed \<and> PartialExits p \<noteq> [] \<and> CurrentQuantity p = 0)"

subsection \<open>The positions and calls of the specification's scenarios\<close>

text \<open>A long position of 10 units entered at 100 with a stop-loss at 90, as
  \<open>BeforeCreate\<close> leaves it; a partial exit of \<open>q\<close> units at 110; a DCA entry of \<open>q\<close>
  units at 80.\<close>

definition scenarioRequest :: Position where
  "scenarioRequest = zeroPosition\<lparr>Status := PositionStatusOpen, Side := PositionSideLong,
     EntryPrice := 100, EntryQuantity := 10, EntryValue := 1000, StopLoss := Some 90\<rparr>"

definition scenarioPosition :: Position where
  "scenarioPosition = BeforeCreate 1 scenarioRequest"

definition scenarioExit :: "real \<Rightarrow> PartialExit" where
  "scenarioExit q = \<lparr>exit_Timestamp = 2, exit_Quantity = q, exit_Price = 110,
     exit_Value = 110 * q, exit_Fees = 0, exit_PnL = 10 * q, exit_PnLPercent = 10,
     exit_Reason = ''manual'', exit_TradeID = 7, exit_TxHash = []\<rparr>"

definition scenarioDCA :: "real \<Rightarrow> DCAEntry" where
  "scenarioDCA q = \<lparr>dca_Timestamp = 3, dca_Quantity = q, dca_Price = 80, dca_Value = 80 * q,
     dca_Fees = 0, dca_TradeID = 8, dca_TxHash = [], dca_Strategy = ''price_based''\<rparr>"

section \<open>The effect of each method, field by field\<close>

text \<open>\<open>updateTrackingValues\<close> as one record update. The six statements are taken one
  after the other; \<open>pk\<close> is the position after the \<open>k\<close>-th.\<close>

lemma updateTrackingValues_closed:
  "updateTrackingValues p =
     p\<lparr>HighestValue := max (HighestValue p) (CurrentValue p),
       HighestPrice := max (HighestPrice p) (CurrentPrice p),
       LowestValue := min (LowestValue p) (CurrentValue p),
       LowestPrice := min (LowestPrice p) (CurrentPrice p),
       MaxDrawdown :=
         (if max (HighestValue p) (CurrentValue p) > 0
          then max (MaxDrawdown p)
                 ((max (HighestValue p) (CurrentValue p) - CurrentValue p)
                    / max (HighestValue p) (CurrentValue p) * 100)
          else MaxDrawdown p),
       MaxGainPercent :=
         (if EntryValue p > 0
          then max (MaxGainPercent p)
                 ((max (HighestValue p) (CurrentValue p) - EntryValue p) / EntryValue p * 100)
          else MaxGainPercent p)\<rparr>"
proof -
  define p1 where "p1 = (if CurrentValue p > HighestValue p then p\<lparr>HighestValue := CurrentValue p\<rparr> else p)"
  define p2 where "p2 = (if CurrentPrice p1 > HighestPrice p1 then p1\<lparr>HighestPrice := CurrentPrice p1\<rparr> else p1)"
  define p3 where "p3 = (if CurrentValue p2 < LowestValue p2 then p2\<lparr>LowestValue := CurrentValue p2\<rparr> else p2)"
  define p4 where "p4 = (if CurrentPrice p3 < LowestPrice p3 then p3\<lparr>LowestPrice := CurrentPrice p3\<rparr> else p3)"
  define p5 where "p5 = (if HighestValue p4 > 0 then
                 (let drawdown = ((HighestValue p4 - CurrentValue p4) / HighestValue p4) * 100
                  in if drawdown > MaxDrawdown p4 then p4\<lparr>MaxDrawdown := drawdown\<rparr> else p4)
               else p4)"
  define p6 where "p6 = (if EntryValue p5 > 0 then
                 (let maxGain = ((HighestValue p5 - EntryValue p5) / EntryValue p5) * 100
                  in if maxGain > MaxGainPercent p5 then p5\<lparr>MaxGainPercent := maxGain\<rparr> else p5)
               else p5)"
  have e: "updateTrackingValues p = p6"
    by (simp only: updateTrackingValues_def p6_def p5_def p4_def p3_def p2_def p1_def Let_def)
  have 1: "p1 = p\<lparr>HighestValue := max (HighestValue p) (CurrentValue p)\<rparr>"
    by (simp add: p1_def max_def)
  have 2: "p2 = p1\<lparr>HighestPrice := max (HighestPrice p) (CurrentPrice p)\<rparr>"
    by (simp add: p2_def 1 max_def)
  have 3: "p3 = p2\<lparr>LowestValue := min (LowestValue p) (CurrentValue p)\<rparr>"
    by (simp add: p3_def 2 1 min_def)
  have 4: "p4 = p3\<lparr>LowestPrice := min (LowestPrice p) (CurrentPrice p)\<rparr>"
    by (simp add: p4_def 3 2 1 min_def)
  have 5: "p5 = p4\<lparr>MaxDrawdown :=
         (if max (HighestValue p) (CurrentValue p) > 0
          then max (MaxDrawdown p)
                 ((max (HighestValue p) (CurrentValue p) - CurrentValue p)
                    / max (HighestValue p) (CurrentValue p) * 100)
          else MaxDrawdown p)\<rparr>"
    by (simp add: p5_def 4 3 2 1 Let_def max_def)
  have 6: "p6 = p5\<lparr>MaxGainPercent :=
         (if EntryValue p > 0
          then max (MaxGainPercent p)
                 ((max (HighestValue p) (CurrentValue p) - EntryValue p) / EntryValue p * 100)
          else MaxGainPercent p)\<rparr>"
    by (simp add: p6_def 5 4 3 2 1 Let_def max_def)
  show ?thesis
    by (simp only: e 6 5 4 3 2 1)
qed

text \<open>\<open>updatePerformanceMetrics\<close> writes the five profit fields and nothing else.\<close>

lemma updatePerformanceMetrics_shape:
  "\<exists>a b c d e. updatePerformanceMetrics p =
     p\<lparr>UnrealizedPnL := a, UnrealizedPnLPercent := b, ROI := c, RealizedPnL := d,
       RealizedPnLPercent := e\<rparr>"
proof (cases "Status p = PositionStatusOpen")
  case True
  define q where "q = p\<lparr>UnrealizedPnL := (CurrentPrice p - EntryPrice p) * CurrentQuantity p\<rparr>"
  have "updatePerformanceMetrics p =
      q\<lparr>UnrealizedPnLPercent :=
            (if EntryValue p \<noteq> 0 then UnrealizedPnL q / EntryValue p * 100 else UnrealizedPnLPercent p),
        ROI := (if EntryValue p \<noteq> 0
                then (CurrentValue p - EntryValue p - TotalFees p) / EntryValue p * 100 else ROI p)\<rparr>"
    using True by (simp add: updatePerformanceMetrics_def Let_def q_def)
  then have "updatePerformanceMetrics p =
      p\<lparr>UnrealizedPnL := UnrealizedPnL q,
        UnrealizedPnLPercent :=
            (if EntryValue p \<noteq> 0 then UnrealizedPnL q / EntryValue p * 100 else UnrealizedPnLPercent p),
        ROI := (if EntryValue p \<noteq> 0
                then (CurrentValue p - EntryValue p - TotalFees p) / EntryValue p * 100 else ROI p),
        RealizedPnL := RealizedPnL p, RealizedPnLPercent := RealizedPnLPercent p\<rparr>"
    by (simp add: q_def)
  then show ?thesis by blast
next
  case notOpen: False
  show ?thesis
  proof (cases "Status p = PositionStatusClosed \<and> ExitValue p \<noteq> None")
    case True
    then obtain x where x: "ExitValue p = Some x" by auto
    have "updatePerformanceMetrics p =
      p\<lparr>UnrealizedPnL := UnrealizedPnL p, UnrealizedPnLPercent := UnrealizedPnLPercent p,
        ROI := (if EntryValue p \<noteq> 0
                then (x - EntryValue p - TotalFees p) / EntryValue p * 100 else ROI p),
        RealizedPnL := x - EntryValue p - TotalFees p,
        RealizedPnLPercent :=
          (if EntryValue p \<noteq> 0
           then (x - EntryValue p - TotalFees p) / EntryValue p * 100 else RealizedPnLPercent p)\<rparr>"
      using True x by (simp add: updatePerformanceMetrics_def Let_def)
    then show ?thesis by blast
  next
    case False
    then have "updatePerformanceMetrics p = p"
      using notOpen by (auto simp add: updatePerformanceMetrics_def split: option.split)
    then have "updatePerformanceMetrics p =
      p\<lparr>UnrealizedPnL := UnrealizedPnL p, UnrealizedPnLPercent := UnrealizedPnLPercent p,
        ROI := ROI p, RealizedPnL := RealizedPnL p, RealizedPnLPercent := RealizedPnLPercent p\<rparr>"
      by simp
    then show ?thesis by blast
  qed
qed

lemma updatePerformanceMetrics_open:
  "Status p = PositionStatusOpen \<Longrightarrow>
     UnrealizedPnL (updatePerformanceMetrics p) = (CurrentPrice p - EntryPrice p) * CurrentQuantity p"
  by (simp add: updatePerformanceMetrics_def Let_def)

lemma UpdateCurrentPrice_steps:
  "UpdateCurrentPrice now price p =
     updateTrackingValues (updatePerformanceMetrics
       (p\<lparr>CurrentPrice := price, CurrentValue := price * CurrentQuantity p,
          LastPriceUpdate := now\<rparr>))"
  by (simp add: UpdateCurrentPrice_def Let_def)

lemma UpdateCurrentPrice_keeps:
  "Status (UpdateCurrentPrice now price p) = Status p"
  "Side (UpdateCurrentPrice now price p) = Side p"
  "EntryPrice (UpdateCurrentPrice now price p) = EntryPrice p"
  "EntryQuantity (UpdateCurrentPrice now price p) = EntryQuantity p"
  "EntryValue (UpdateCurrentPrice now price p) = EntryValue p"
  "CurrentQuantity (UpdateCurrentPrice now price p) = CurrentQuantity p"
  "PartialExits (UpdateCurrentPrice now price p) = PartialExits p"
  "DCAEntries (UpdateCurrentPrice now price p) = DCAEntries p"
  "StopLoss (UpdateCurrentPrice now price p) = StopLoss p"
  "TrailingStop (UpdateCurrentPrice now price p) = TrailingStop p"
  "TrailingStopPrice (UpdateCurrentPrice now price p) = TrailingStopPrice p"
proof -
  obtain a b c d e where
    "updatePerformanceMetrics (p\<lparr>CurrentPrice := price,
        CurrentValue := price * CurrentQuantity p, LastPriceUpdate := now\<rparr>) =
     p\<lparr>CurrentPrice := price, CurrentValue := price * CurrentQuantity p, LastPriceUpdate := now\<rparr>
      \<lparr>UnrealizedPnL := a, UnrealizedPnLPercent := b, ROI := c, RealizedPnL := d,
       RealizedPnLPercent := e\<rparr>"
    using updatePerformanceMetrics_shape by blast
  then have *: "UpdateCurrentPrice now price p =
     updateTrackingValues (p\<lparr>CurrentPrice := price, CurrentValue := price * CurrentQuantity p,
       LastPriceUpdate := now, UnrealizedPnL := a, UnrealizedPnLPercent := b, ROI := c,
       RealizedPnL := d, RealizedPnLPercent := e\<rparr>)"
    by (simp add: UpdateCurrentPrice_steps)
  show "Status (UpdateCurrentPrice now price p) = Status p"
    by (simp add: * updateTrackingValues_closed)
  show "Side (UpdateCurrentPrice now price p) = Side p"
    by (simp add: * updateTrackingValues_closed)
  show "EntryPrice (UpdateCurrentPrice now price p) = EntryPrice p"
    by (simp add: * updateTrackingValues_closed)
  show "EntryQuantity (UpdateCurrentPrice now price p) = EntryQuantity p"
    by (simp add: * updateTrackingValues_closed)
  show "EntryValue (UpdateCurrentPrice now price p) = EntryValue p"
    by (simp add: * updateTrackingValues_closed)
  show "CurrentQuantity (UpdateCurrentPrice now price p) = CurrentQuantity p"
    by (simp add: * updateTrackingValues_closed)
  show "PartialExits (UpdateCurrentPrice now price p) = PartialExits p"
    by (simp add: * updateTrackingValues_closed)
  show "DCAEntries (UpdateCurrentPrice now price p) = DCAEntries p"
    by (simp add: * updateTrackingValues_closed)
  show "StopLoss (UpdateCurrentPrice now price p) = StopLoss p"
    by (simp add: * updateTrackingValues_closed)
  show "TrailingStop (UpdateCurrentPrice now price p) = TrailingStop p"
    by (simp add: * updateTrackingValues_closed)
  show "TrailingStopPrice (UpdateCurrentPrice now price p) = TrailingStopPrice p"
    by (simp add: * updateTrackingValues_closed)
qed

lemma UpdateCurrentPrice_sets:
  "CurrentPrice (UpdateCurrentPrice now price p) = price"
  "CurrentValue (UpdateCurrentPrice now price p) = price * CurrentQuantity p"
  "HighestPrice (UpdateCurrentPrice now price p) = max (HighestPrice p) price"
  "LowestPrice (UpdateCurrentPrice now price p) = min (LowestPrice p) price"
  "HighestValue (UpdateCurrentPrice now price p) = max (HighestValue p) (price * CurrentQuantity p)"
  "LowestValue (UpdateCurrentPrice now price p) = min (LowestValue p) (price * CurrentQuantity p)"
  "MaxDrawdown (UpdateCurrentPrice now price p) =
     (if max (HighestValue p) (price * CurrentQuantity p) > 0
      then max (MaxDrawdown p)
             ((max (HighestValue p) (price * CurrentQuantity p) - price * CurrentQuantity p)
                / max (HighestValue p) (price * CurrentQuantity p) * 100)
      else MaxDrawdown p)"
proof -
  obtain a b c d e where
    "updatePerformanceMetrics (p\<lparr>CurrentPrice := price,
        CurrentValue := price * CurrentQuantity p, LastPriceUpdate := now\<rparr>) =
     p\<lparr>CurrentPrice := price, CurrentValue := price * CurrentQuantity p, LastPriceUpdate := now\<rparr>
      \<lparr>UnrealizedPnL := a, UnrealizedPnLPercent := b, ROI := c, RealizedPnL := d,
       RealizedPnLPercent := e\<rparr>"
    using updatePerformanceMetrics_shape by blast
  then have *: "UpdateCurrentPrice now price p =
     updateTrackingValues (p\<lparr>CurrentPrice := price, CurrentValue := price * CurrentQuantity p,
       LastPriceUpdate := now, UnrealizedPnL := a, UnrealizedPnLPercent := b, ROI := c,
       RealizedPnL := d, RealizedPnLPercent := e\<rparr>)"
    by (simp add: UpdateCurrentPrice_steps)
  show "CurrentPrice (UpdateCurrentPrice now price p) = price"
    by (simp add: * updateTrackingValues_closed)
  show "CurrentValue (UpdateCurrentPrice now price p) = price * CurrentQuantity p"
    by (simp add: * updateTrackingValues_closed)
  show "HighestPrice (UpdateCurrentPrice now price p) = max (HighestPrice p) price"
    by (simp add: * updateTrackingValues_closed)
  show "LowestPrice (UpdateCurrentPrice now price p) = min (LowestPrice p) price"
    by (simp add: * updateTrackingValues_closed)
  show "HighestValue (UpdateCurrentPrice now price p) = max (HighestValue p) (price * CurrentQuantity p)"
    by (simp add: * updateTrackingValues_closed)
  show "LowestValue (UpdateCurrentPrice now price p) = min (LowestValue p) (price * CurrentQuantity p)"
    by (simp add: * updateTrackingValues_closed)
  show "MaxDrawdown (UpdateCurrentPrice now price p) =
     (if max (HighestValue p) (price * CurrentQuantity p) > 0
      then max (MaxDrawdown p)
             ((max (HighestValue p) (price * CurrentQuantity p) - price * CurrentQuantity p)
                / max (HighestValue p) (price * CurrentQuantity p) * 100)
      else MaxDrawdown p)"
    by (simp add: * updateTrackingValues_closed)
qed

lemma UpdateCurrentPrice_pnl:
  "Status p = PositionStatusOpen \<Longrightarrow>
     UnrealizedPnL (UpdateCurrentPrice now price p) = (price - EntryPrice p) * CurrentQuantity p"
  by (simp add: UpdateCurrentPrice_steps updateTrackingValues_closed updatePerformanceMetrics_open)

lemma AddPartialExit_closed:
  "AddPartialExit exit p =
     (if CurrentQuantity p - exit_Quantity exit \<le> 0 then
        p\<lparr>PartialExits := PartialExits p @ [exit], CurrentQuantity := 0, CurrentValue := 0,
          RealizedPnL := RealizedPnL p + exit_PnL exit, Status := PositionStatusClosed\<rparr>
      else
        p\<lparr>PartialExits := PartialExits p @ [exit],
          CurrentQuantity := CurrentQuantity p - exit_Quantity exit,
          CurrentValue := CurrentPrice p * (CurrentQuantity p - exit_Quantity exit),
          RealizedPnL := RealizedPnL p + exit_PnL exit, Status := PositionStatusPartial\<rparr>)"
  by (simp add: AddPartialExit_def Let_def)

lemma AddDCAEntry_closed:
  "AddDCAEntry entry p =
     p\<lparr>DCAEntries := DCAEntries p @ [entry],
       EntryPrice := (EntryValue p + dca_Value entry) / (EntryQuantity p + dca_Quantity entry),
       EntryQuantity := EntryQuantity p + dca_Quantity entry,
       EntryValue := EntryValue p + dca_Value entry,
       CurrentQuantity := EntryQuantity p + dca_Quantity entry,
       EntryFees := EntryFees p + dca_Fees entry\<rparr>"
  by (simp add: AddDCAEntry_def Let_def)

lemma BeforeCreate_closed:
  "BeforeCreate now p =
     p\<lparr>EntryTime := (if IsZero (EntryTime p) then now else EntryTime p),
       CurrentPrice := EntryPrice p, CurrentQuantity := EntryQuantity p,
       CurrentValue := EntryValue p,
       LastPriceUpdate := (if IsZero (EntryTime p) then now else EntryTime p),
       HighestValue := EntryValue p, LowestValue := EntryValue p,
       HighestPrice := EntryPrice p, LowestPrice := EntryPrice p, TotalFees := EntryFees p\<rparr>"
  by (simp add: BeforeCreate_def Let_def)

lemma UpdateTrailingStop_shape:
  "\<exists>x. UpdateTrailingStop p = p\<lparr>TrailingStopPrice := x\<rparr>"
proof -
  have "UpdateTrailingStop p = p\<lparr>TrailingStopPrice := TrailingStopPrice (UpdateTrailingStop p)\<rparr>"
    by (simp add: UpdateTrailingStop_def Let_def split: option.split)
  then show ?thesis by blast
qed

lemma AddAdjustment_shape:
  "\<exists>a b c d. AddAdjustment adjustment p =
     p\<lparr>Adjustments := a, StopLoss := b, TakeProfit := c, TrailingStop := d\<rparr>"
proof -
  have "AddAdjustment adjustment p =
     p\<lparr>Adjustments := Adjustments (AddAdjustment adjustment p),
       StopLoss := StopLoss (AddAdjustment adjustment p),
       TakeProfit := TakeProfit (AddAdjustment adjustment p),
       TrailingStop := TrailingStop (AddAdjustment adjustment p)\<rparr>"
    by (simp add: AddAdjustment_def Let_def)
  then show ?thesis by blast
qed

section \<open>Properties of Trade\<close>

text \<open>
  C6, as the specification states it, is false: with a requested price of 100 and an
  executed price of 0 a buy does not report \<open>(0 - 100) / 100 * 100 = -100\<close> but 0,
  because the early return also fires on a zero executed price.
\<close>

theorem C6_slippage_counterexample:
  "trade_Price \<lparr>trade_Side = TradeSideBuy, trade_Status = TradeStatusConfirmed,
       trade_Price = 100, trade_ExecutedPrice = 0, trade_RetryCount = 0, trade_MaxRetries = 3\<rparr> > 0
   \<and> CalculateActualSlippage \<lparr>trade_Side = TradeSideBuy, trade_Status = TradeStatusConfirmed,
       trade_Price = 100, trade_ExecutedPrice = 0, trade_RetryCount = 0, trade_MaxRetries = 3\<rparr>
     \<noteq> Some ((0 - 100) / 100 * 100)"
  by (simp add: CalculateActualSlippage_def)

text \<open>
  C6 (amended): when neither the requested nor the executed price is zero,
  \<open>CalculateActualSlippage\<close> returns \<open>(executed - requested) / requested * 100\<close> for a buy
  and \<open>(requested - executed) / requested * 100\<close> for any other side; when the requested
  price or the executed price is zero it returns 0.
\<close>

theorem C6_slippage:
  "(trade_Price t \<noteq> 0 \<and> trade_ExecutedPrice t \<noteq> 0 \<and> trade_Side t = TradeSideBuy \<longrightarrow>
      CalculateActualSlippage t
        = Some ((trade_ExecutedPrice t - trade_Price t) / trade_Price t * 100))
   \<and> (trade_Price t \<noteq> 0 \<and> trade_ExecutedPrice t \<noteq> 0 \<and> trade_Side t \<noteq> TradeSideBuy \<longrightarrow>
      CalculateActualSlippage t
        = Some ((trade_Price t - trade_ExecutedPrice t) / trade_Price t * 100))
   \<and> (trade_Price t = 0 \<or> trade_ExecutedPrice t = 0 \<longrightarrow> CalculateActualSlippage t = Some 0)"
  by (simp add: CalculateActualSlippage_def float_div_def)

theorem C6_slippage_witness:
  "CalculateActualSlippage \<lparr>trade_Side = TradeSideBuy, trade_Status = TradeStatusConfirmed,
       trade_Price = 100, trade_ExecutedPrice = 125, trade_RetryCount = 0, trade_MaxRetries = 3\<rparr>
     = Some 25
   \<and> CalculateActualSlippage \<lparr>trade_Side = TradeSideSell, trade_Status = TradeStatusConfirmed,
       trade_Price = 100, trade_ExecutedPrice = 75, trade_RetryCount = 0, trade_MaxRetries = 3\<rparr>
     = Some 25
   \<and> CalculateActualSlippage \<lparr>trade_Side = TradeSideSell, trade_Status = TradeStatusConfirmed,
       trade_Price = 0, trade_ExecutedPrice = 96, trade_RetryCount = 0, trade_MaxRetries = 3\<rparr>
     = Some 0"
  using
    C6_slippage [of "\<lparr>trade_Side = TradeSideBuy, trade_Status = TradeStatusConfirmed,
       trade_Price = 100, trade_ExecutedPrice = 125, trade_RetryCount = 0, trade_MaxRetries = 3\<rparr>"]
    C6_slippage [of "\<lparr>trade_Side = TradeSideSell, trade_Status = TradeStatusConfirmed,
       trade_Price = 100, trade_ExecutedPrice = 75, trade_RetryCount = 0, trade_MaxRetries = 3\<rparr>"]
    C6_slippage [of "\<lparr>trade_Side = TradeSideSell, trade_Status = TradeStatusConfirmed,
       trade_Price = 0, trade_ExecutedPrice = 96, trade_RetryCount = 0, trade_MaxRetries = 3\<rparr>"]
  by simp

text \<open>
  C7: \<open>CanRetry\<close> holds exactly when the status is \<open>failed\<close> and the retry count is
  below the maximum; a failed trade with three retries out of three cannot be retried.
\<close>

theorem C7_can_retry:
  "(CanRetry t \<longleftrightarrow> trade_Status t = TradeStatusFailed \<and> trade_RetryCount t < trade_MaxRetries t)
   \<and> \<not> CanRetry \<lparr>trade_Side = s, trade_Status = TradeStatusFailed, trade_Price = p,
         trade_ExecutedPrice = e, trade_RetryCount = 3, trade_MaxRetries = 3\<rparr>"
  by (simp add: CanRetry_def)

theorem C7_can_retry_witness:
  "CanRetry \<lparr>trade_Side = TradeSideBuy, trade_Status = TradeStatusFailed, trade_Price = 100,
       trade_ExecutedPrice = 0, trade_RetryCount = 2, trade_MaxRetries = 3\<rparr>
   \<and> \<not> CanRetry \<lparr>trade_Side = TradeSideBuy, trade_Status = TradeStatusFailed, trade_Price = 100,
       trade_ExecutedPrice = 0, trade_RetryCount = 3, trade_MaxRetries = 3\<rparr>
   \<and> \<not> CanRetry \<lparr>trade_Side = TradeSideBuy, trade_Status = TradeStatusPending, trade_Price = 100,
       trade_ExecutedPrice = 0, trade_RetryCount = 0, trade_MaxRetries = 3\<rparr>"
  using
    C7_can_retry [of "\<lparr>trade_Side = TradeSideBuy, trade_Status = TradeStatusFailed, trade_Price = 100,
       trade_ExecutedPrice = 0, trade_RetryCount = 2, trade_MaxRetries = 3\<rparr>" TradeSideBuy 100 0]
    C7_can_retry [of "\<lparr>trade_Side = TradeSideBuy, trade_Status = TradeStatusPending, trade_Price = 100,
       trade_ExecutedPrice = 0, trade_RetryCount = 0, trade_MaxRetries = 3\<rparr>" TradeSideBuy 100 0]
  by simp

text \<open>
  C10: a trade whose executed price is 0 has slippage 0 whatever its side and requested
  price; and since the requested price is checked before the division, the division is
  never made with a zero divisor: \<open>CalculateActualSlippage\<close> never yields \<open>None\<close>.
\<close>

theorem C10_zero_executed_price:
  "(trade_ExecutedPrice t = 0 \<longrightarrow> CalculateActualSlippage t = Some 0)
   \<and> CalculateActualSlippage t \<noteq> None"
  by (simp add: CalculateActualSlippage_def float_div_def)

theorem C10_zero_executed_price_witness:
  "CalculateActualSlippage \<lparr>trade_Side = TradeSideSell, trade_Status = TradeStatusConfirmed,
       trade_Price = 100, trade_ExecutedPrice = 0, trade_RetryCount = 0, trade_MaxRetries = 3\<rparr>
     = Some 0"
  using C10_zero_executed_price [of "\<lparr>trade_Side = TradeSideSell,
       trade_Status = TradeStatusConfirmed, trade_Price = 100, trade_ExecutedPrice = 0,
       trade_RetryCount = 0, trade_MaxRetries = 3\<rparr>"]
  by simp

section \<open>Properties of the risk score\<close>

lemma riskLevelRank_updateRiskLevel:
  "riskLevelRank (token_RiskLevel (updateRiskLevel t)) =
     (if token_RiskScore t \<le> 2 then 0
      else if token_RiskScore t \<le> 4 then 1
      else if token_RiskScore t \<le> 6 then 2
      else if token_RiskScore t \<le> 8 then 3
      else if token_RiskScore t \<le> 9 then 4 else 5)"
  by (simp add: updateRiskLevel_def riskLevelRank_def)

lemma updateRiskLevel_six: "token_RiskLevel (updateRiskLevel t) \<in> set sixRiskLevels"
  by (simp add: updateRiskLevel_def sixRiskLevels_def)

lemma calculateRiskScore_score:
  "token_RiskScore (calculateRiskScore now t) =
     (if riskScoreSum now t < 0 then 0
      else if riskScoreSum now t > 10 then 10 else riskScoreSum now t)"
  by (simp add: calculateRiskScore_def Let_def)

lemma updateRiskLevel_closed:
  "updateRiskLevel t =
     t\<lparr>token_RiskLevel :=
         (if token_RiskScore t \<le> 2 then RiskLevelVeryLow
          else if token_RiskScore t \<le> 4 then RiskLevelLow
          else if token_RiskScore t \<le> 6 then RiskLevelMedium
          else if token_RiskScore t \<le> 8 then RiskLevelHigh
          else if token_RiskScore t \<le> 9 then RiskLevelVeryHigh
          else RiskLevelExtreme)\<rparr>"
  by (simp add: updateRiskLevel_def)

lemma riskLevelRank_six: "map riskLevelRank sixRiskLevels = [0, 1, 2, 3, 4, 5]"
  by (simp add: sixRiskLevels_def riskLevelRank_def)

text \<open>
  C5: whatever the token, the score that \<open>calculateRiskScore\<close> stores is the running sum
  clamped to the interval from 0 to 10, so it lies between 0 and 10. \<open>updateRiskLevel\<close>
  changes the level only, and sets it by the fixed table of inclusive upper bounds:
  up to 2 \<open>very_low\<close>, up to 4 \<open>low\<close>, up to 6 \<open>medium\<close>, up to 8 \<open>high\<close>, up to 9
  \<open>very_high\<close>, above 9 \<open>extreme\<close>. These are the six levels, ranked 0 to 5 in that
  order, and a token with a score at least as high gets a level ranked at least as high.
\<close>

theorem C5_risk_score_bounds:
  "0 \<le> token_RiskScore (calculateRiskScore now t)
   \<and> token_RiskScore (calculateRiskScore now t) \<le> 10
   \<and> token_RiskScore (calculateRiskScore now t) = max 0 (min 10 (riskScoreSum now t))
   \<and> updateRiskLevel a =
       a\<lparr>token_RiskLevel :=
           (if token_RiskScore a \<le> 2 then RiskLevelVeryLow
            else if token_RiskScore a \<le> 4 then RiskLevelLow
            else if token_RiskScore a \<le> 6 then RiskLevelMedium
            else if token_RiskScore a \<le> 8 then RiskLevelHigh
            else if token_RiskScore a \<le> 9 then RiskLevelVeryHigh
            else RiskLevelExtreme)\<rparr>
   \<and> map riskLevelRank sixRiskLevels = [0, 1, 2, 3, 4, 5]
   \<and> token_RiskLevel (updateRiskLevel a) \<in> set sixRiskLevels
   \<and> (token_RiskScore a \<le> token_RiskScore b \<longrightarrow>
        riskLevelRank (token_RiskLevel (updateRiskLevel a))
          \<le> riskLevelRank (token_RiskLevel (updateRiskLevel b)))"
proof -
  have lo: "0 \<le> token_RiskScore (calculateRiskScore now t)"
    by (simp add: calculateRiskScore_score)
  have hi: "token_RiskScore (calculateRiskScore now t) \<le> 10"
    by (simp add: calculateRiskScore_score)
  have clamp: "token_RiskScore (calculateRiskScore now t) = max 0 (min 10 (riskScoreSum now t))"
    by (simp add: calculateRiskScore_score max_def min_def)
  have mono: "token_RiskScore a \<le> token_RiskScore b \<longrightarrow>
        riskLevelRank (token_RiskLevel (updateRiskLevel a))
          \<le> riskLevelRank (token_RiskLevel (updateRiskLevel b))"
    unfolding riskLevelRank_updateRiskLevel by simp
  from lo hi clamp mono updateRiskLevel_six [of a] updateRiskLevel_closed [of a] riskLevelRank_six
  show ?thesis by blast
qed

theorem C5_risk_score_bounds_witness:
  "token_RiskScore (calculateRiskScore (100 * Hour) riskyToken) = 10
   \<and> token_RiskScore (calculateRiskScore (100 * Hour) (calmToken 0)) = 8.5
   \<and> token_RiskLevel (updateRiskLevel (calculateRiskScore (100 * Hour) riskyToken))
       = RiskLevelExtreme
   \<and> token_RiskLevel (updateRiskLevel (calmToken 3.5)) = RiskLevelLow
   \<and> token_RiskLevel (updateRiskLevel (calmToken 8.5)) = RiskLevelVeryHigh
   \<and> token_RiskLevel (updateRiskLevel (calmToken 2)) = RiskLevelVeryLow
   \<and> token_RiskScore (calmToken 3.5) \<le> token_RiskScore (calmToken 8.5)
   \<and> riskLevelRank (token_RiskLevel (updateRiskLevel (calmToken 3.5)))
       \<le> riskLevelRank (token_RiskLevel (updateRiskLevel (calmToken 8.5)))"
proof -
  have sums: "riskScoreSum (100 * Hour) riskyToken = 25"
    "riskScoreSum (100 * Hour) (calmToken 0) = 8.5"
    by (simp_all add: riskScoreSum_def getTotalLiquidity_def time_Since_def Hour_def
        riskyToken_def calmToken_def)
  have stored: "token_RiskScore (calmToken s) = s" for s
    by (simp add: calmToken_def)
  have a: "token_RiskScore (calculateRiskScore (100 * Hour) riskyToken) = 10"
    using C5_risk_score_bounds [of "100 * Hour" riskyToken] sums by simp
  have b: "token_RiskScore (calculateRiskScore (100 * Hour) (calmToken 0)) = 8.5"
    using C5_risk_score_bounds [of "100 * Hour" "calmToken 0"] sums by simp
  have c: "token_RiskLevel (updateRiskLevel (calculateRiskScore (100 * Hour) riskyToken))
       = RiskLevelExtreme"
    using C5_risk_score_bounds [of _ _ "calculateRiskScore (100 * Hour) riskyToken"] a by simp
  have d: "token_RiskLevel (updateRiskLevel (calmToken 3.5)) = RiskLevelLow"
    "token_RiskLevel (updateRiskLevel (calmToken 8.5)) = RiskLevelVeryHigh"
    "token_RiskLevel (updateRiskLevel (calmToken 2)) = RiskLevelVeryLow"
    using C5_risk_score_bounds [of _ _ "calmToken 3.5"] C5_risk_score_bounds [of _ _ "calmToken 8.5"]
      C5_risk_score_bounds [of _ _ "calmToken 2"] stored
    by simp_all
  have e: "token_RiskScore (calmToken 3.5) \<le> token_RiskScore (calmToken 8.5)"
    by (simp add: stored)
  from C5_risk_score_bounds [of _ _ "calmToken 3.5" "calmToken 8.5"] e
  have f: "riskLevelRank (token_RiskLevel (updateRiskLevel (calmToken 3.5)))
       \<le> riskLevelRank (token_RiskLevel (updateRiskLevel (calmToken 8.5)))"
    by blast
  from a b c d e f show ?thesis by blast
qed

section \<open>Properties of Position\<close>

subsection \<open>Price updates\<close>

lemma feedPrices_keeps:
  "CurrentQuantity (feedPrices p ticks) = CurrentQuantity p"
  "Status (feedPrices p ticks) = Status p"
  by (induction p ticks rule: feedPrices.induct) (simp_all add: UpdateCurrentPrice_keeps)

lemma feedPrices_monotone:
  "HighestPrice p \<le> HighestPrice (feedPrices p ticks)
   \<and> LowestPrice (feedPrices p ticks) \<le> LowestPrice p
   \<and> HighestValue p \<le> HighestValue (feedPrices p ticks)
   \<and> LowestValue (feedPrices p ticks) \<le> LowestValue p
   \<and> MaxDrawdown p \<le> MaxDrawdown (feedPrices p ticks)"
proof (induction p ticks rule: feedPrices.induct)
  case (1 p)
  show ?case by simp
next
  case (2 p now price ticks)
  let ?q = "UpdateCurrentPrice now price p"
  have "HighestPrice p \<le> HighestPrice ?q" "LowestPrice ?q \<le> LowestPrice p"
    "HighestValue p \<le> HighestValue ?q" "LowestValue ?q \<le> LowestValue p"
    "MaxDrawdown p \<le> MaxDrawdown ?q"
    by (simp_all add: UpdateCurrentPrice_sets)
  with 2 show ?case by fastforce
qed

lemma feedPrices_bounds:
  "(now, x) \<in> set ticks \<Longrightarrow>
     LowestPrice (feedPrices p ticks) \<le> x \<and> x \<le> HighestPrice (feedPrices p ticks)
     \<and> LowestValue (feedPrices p ticks) \<le> x * CurrentQuantity p
     \<and> x * CurrentQuantity p \<le> HighestValue (feedPrices p ticks)"
proof (induction p ticks rule: feedPrices.induct)
  case (1 p)
  then show ?case by simp
next
  case (2 p now' price ticks)
  let ?q = "UpdateCurrentPrice now' price p"
  show ?case
  proof (cases "(now, x) \<in> set ticks")
    case True
    with 2 show ?thesis by (simp add: UpdateCurrentPrice_keeps)
  next
    case False
    with 2 have x: "x = price" by simp
    have "LowestPrice ?q \<le> x" "x \<le> HighestPrice ?q"
      "LowestValue ?q \<le> x * CurrentQuantity p" "x * CurrentQuantity p \<le> HighestValue ?q"
      by (simp_all add: x UpdateCurrentPrice_sets)
    with feedPrices_monotone [of ?q ticks] show ?thesis by fastforce
  qed
qed

text \<open>
  C4: on an open position, \<open>UpdateCurrentPrice\<close> leaves the current value equal to the
  price times the current quantity and the unrealized PnL equal to the price minus the
  entry price, times the current quantity; the highest and lowest price and value bound
  the price and value just set, never move inwards, and after a feed bound every price
  of the feed and the value it gave; the maximum drawdown is the larger of its old value
  and \<open>(highest value - current value) / highest value * 100\<close> (left alone when the
  highest value is not positive), so it never decreases. The long position entered at
  100 with 10 units has unrealized PnL -150 at price 85, where its stop-loss at 90
  triggers.
\<close>

theorem C4_price_update:
  assumes "Status p = PositionStatusOpen"
  shows
  "CurrentValue (UpdateCurrentPrice now price p)
      = price * CurrentQuantity (UpdateCurrentPrice now price p)
   \<and> UnrealizedPnL (UpdateCurrentPrice now price p)
      = (price - EntryPrice (UpdateCurrentPrice now price p))
          * CurrentQuantity (UpdateCurrentPrice now price p)
   \<and> LowestPrice (UpdateCurrentPrice now price p) \<le> price
   \<and> price \<le> HighestPrice (UpdateCurrentPrice now price p)
   \<and> LowestValue (UpdateCurrentPrice now price p) \<le> CurrentValue (UpdateCurrentPrice now price p)
   \<and> CurrentValue (UpdateCurrentPrice now price p) \<le> HighestValue (UpdateCurrentPrice now price p)
   \<and> (\<forall>tick \<in> set ticks.
        LowestPrice (feedPrices p ticks) \<le> snd tick
        \<and> snd tick \<le> HighestPrice (feedPrices p ticks)
        \<and> LowestValue (feedPrices p ticks) \<le> snd tick * CurrentQuantity p
        \<and> snd tick * CurrentQuantity p \<le> HighestValue (feedPrices p ticks))
   \<and> LowestPrice (feedPrices p ticks) \<le> LowestPrice p
   \<and> HighestPrice p \<le> HighestPrice (feedPrices p ticks)
   \<and> LowestValue (feedPrices p ticks) \<le> LowestValue p
   \<and> HighestValue p \<le> HighestValue (feedPrices p ticks)
   \<and> MaxDrawdown (UpdateCurrentPrice now price p) =
        (if HighestValue (UpdateCurrentPrice now price p) > 0
         then max (MaxDrawdown p)
                ((HighestValue (UpdateCurrentPrice now price p)
                    - CurrentValue (UpdateCurrentPrice now price p))
                  / HighestValue (UpdateCurrentPrice now price p) * 100)
         else MaxDrawdown p)
   \<and> MaxDrawdown p \<le> MaxDrawdown (UpdateCurrentPrice now price p)
   \<and> MaxDrawdown p \<le> MaxDrawdown (feedPrices p ticks)
   \<and> UnrealizedPnL (UpdateCurrentPrice now 85 scenarioPosition) = - 150
   \<and> ShouldTriggerStopLoss (UpdateCurrentPrice now 85 scenarioPosition)"
proof -
  let ?q = "UpdateCurrentPrice now price p"
  have a: "CurrentValue ?q = price * CurrentQuantity ?q"
    by (simp add: UpdateCurrentPrice_sets UpdateCurrentPrice_keeps)
  have b: "UnrealizedPnL ?q = (price - EntryPrice ?q) * CurrentQuantity ?q"
    using assms by (simp add: UpdateCurrentPrice_pnl UpdateCurrentPrice_keeps)
  have c: "LowestPrice ?q \<le> price" "price \<le> HighestPrice ?q"
    "LowestValue ?q \<le> CurrentValue ?q" "CurrentValue ?q \<le> HighestValue ?q"
    by (simp_all add: UpdateCurrentPrice_sets)
  have d: "\<forall>tick \<in> set ticks.
        LowestPrice (feedPrices p ticks) \<le> snd tick
        \<and> snd tick \<le> HighestPrice (feedPrices p ticks)
        \<and> LowestValue (feedPrices p ticks) \<le> snd tick * CurrentQuantity p
        \<and> snd tick * CurrentQuantity p \<le> HighestValue (feedPrices p ticks)"
  proof
    fix tick assume "tick \<in> set ticks"
    then have "(fst tick, snd tick) \<in> set ticks" by simp
    then show "LowestPrice (feedPrices p ticks) \<le> snd tick
        \<and> snd tick \<le> HighestPrice (feedPrices p ticks)
        \<and> LowestValue (feedPrices p ticks) \<le> snd tick * CurrentQuantity p
        \<and> snd tick * CurrentQuantity p \<le> HighestValue (feedPrices p ticks)"
      by (rule feedPrices_bounds)
  qed
  have e: "MaxDrawdown ?q =
        (if HighestValue ?q > 0
         then max (MaxDrawdown p) ((HighestValue ?q - CurrentValue ?q) / HighestValue ?q * 100)
         else MaxDrawdown p)"
    by (simp add: UpdateCurrentPrice_sets)
  have f: "MaxDrawdown p \<le> MaxDrawdown ?q"
    by (simp add: UpdateCurrentPrice_sets)
  have s: "Status scenarioPosition = PositionStatusOpen" "EntryPrice scenarioPosition = 100"
    "CurrentQuantity scenarioPosition = 10" "StopLoss scenarioPosition = Some 90"
    "Side scenarioPosition = PositionSideLong"
    by (simp_all add: scenarioPosition_def scenarioRequest_def BeforeCreate_closed zeroPosition_def)
  have g: "UnrealizedPnL (UpdateCurrentPrice now 85 scenarioPosition) = - 150"
    by (simp add: UpdateCurrentPrice_pnl s)
  have h: "ShouldTriggerStopLoss (UpdateCurrentPrice now 85 scenarioPosition)"
    by (simp add: ShouldTriggerStopLoss_def UpdateCurrentPrice_keeps UpdateCurrentPrice_sets s)
  from a b c d e f g h feedPrices_monotone [of p ticks] show ?thesis
    by blast
qed

theorem C4_price_update_witness:
  "Status scenarioPosition = PositionStatusOpen
   \<and> CurrentValue (UpdateCurrentPrice 5 85 scenarioPosition) = 850
   \<and> UnrealizedPnL (UpdateCurrentPrice 5 85 scenarioPosition) = - 150
   \<and> HighestPrice (feedPrices scenarioPosition [(5, 85), (6, 120)]) = 120
   \<and> LowestPrice (feedPrices scenarioPosition [(5, 85), (6, 120)]) = 85
   \<and> MaxDrawdown (UpdateCurrentPrice 5 75 scenarioPosition) = 25"
proof -
  have s: "Status scenarioPosition = PositionStatusOpen" "EntryPrice scenarioPosition = 100"
    "CurrentQuantity scenarioPosition = 10" "HighestPrice scenarioPosition = 100"
    "LowestPrice scenarioPosition = 100" "HighestValue scenarioPosition = 1000"
    "MaxDrawdown scenarioPosition = 0"
    by (simp_all add: scenarioPosition_def scenarioRequest_def BeforeCreate_closed zeroPosition_def)
  have hp: "HighestPrice (feedPrices scenarioPosition [(5, 85), (6, 120)]) = 120"
    "LowestPrice (feedPrices scenarioPosition [(5, 85), (6, 120)]) = 85"
    by (simp_all add: UpdateCurrentPrice_sets s)
  have dd: "MaxDrawdown (UpdateCurrentPrice 5 75 scenarioPosition) = 25"
    by (simp add: UpdateCurrentPrice_sets s)
  from C4_price_update [OF s(1), of 5 85 "[(5, 85), (6, 120)]"] s hp dd
  show ?thesis
    by (simp add: UpdateCurrentPrice_keeps)
qed


subsection \<open>Trailing stop\<close>

lemma UpdateTrailingStop_keeps:
  "Status (UpdateTrailingStop p) = Status p"
  "Side (UpdateTrailingStop p) = Side p"
  "CurrentQuantity (UpdateTrailingStop p) = CurrentQuantity p"
  "EntryQuantity (UpdateTrailingStop p) = EntryQuantity p"
  "PartialExits (UpdateTrailingStop p) = PartialExits p"
  "TrailingStop (UpdateTrailingStop p) = TrailingStop p"
proof -
  obtain x where x: "UpdateTrailingStop p = p\<lparr>TrailingStopPrice := x\<rparr>"
    using UpdateTrailingStop_shape by blast
  show "Status (UpdateTrailingStop p) = Status p"
    "Side (UpdateTrailingStop p) = Side p"
    "CurrentQuantity (UpdateTrailingStop p) = CurrentQuantity p"
    "EntryQuantity (UpdateTrailingStop p) = EntryQuantity p"
    "PartialExits (UpdateTrailingStop p) = PartialExits p"
    "TrailingStop (UpdateTrailingStop p) = TrailingStop p"
    by (simp_all add: x)
qed

lemma UpdateTrailingStop_long:
  "Status p = PositionStatusOpen \<Longrightarrow> TrailingStop p = Some pct \<Longrightarrow> Side p = PositionSideLong \<Longrightarrow>
     TrailingStopPrice (UpdateTrailingStop p) =
       Some (case TrailingStopPrice p of
               None \<Rightarrow> CurrentPrice p * (1 - pct / 100)
             | Some old \<Rightarrow> max old (CurrentPrice p * (1 - pct / 100)))"
  by (simp add: UpdateTrailingStop_def Let_def max_def split: option.split)

lemma UpdateTrailingStop_short:
  "Status p = PositionStatusOpen \<Longrightarrow> TrailingStop p = Some pct \<Longrightarrow> Side p = PositionSideShort \<Longrightarrow>
     TrailingStopPrice (UpdateTrailingStop p) =
       Some (case TrailingStopPrice p of
               None \<Rightarrow> CurrentPrice p * (1 + pct / 100)
             | Some old \<Rightarrow> min old (CurrentPrice p * (1 + pct / 100)))"
  by (simp add: UpdateTrailingStop_def Let_def min_def split: option.split)

lemma UpdateTrailingStop_long_rises:
  "Side p = PositionSideLong \<Longrightarrow> TrailingStopPrice p = Some s \<Longrightarrow>
     \<exists>s'. TrailingStopPrice (UpdateTrailingStop p) = Some s' \<and> s \<le> s'"
  by (simp add: UpdateTrailingStop_def Let_def split: option.split)

lemma trailPrices_long_rises:
  "Side p = PositionSideLong \<Longrightarrow> TrailingStopPrice p = Some s \<Longrightarrow>
     \<exists>s'. TrailingStopPrice (trailPrices p ticks) = Some s' \<and> s \<le> s'"
proof (induction p ticks arbitrary: s rule: trailPrices.induct)
  case (1 p)
  then show ?case by simp
next
  case (2 p now price ticks)
  let ?q = "UpdateCurrentPrice now price p"
  have "Side ?q = PositionSideLong" "TrailingStopPrice ?q = Some s"
    using 2 by (simp_all add: UpdateCurrentPrice_keeps)
  then obtain s1 where s1: "TrailingStopPrice (UpdateTrailingStop ?q) = Some s1" "s \<le> s1"
    using UpdateTrailingStop_long_rises by blast
  have "Side (UpdateTrailingStop ?q) = PositionSideLong"
    using 2 by (simp add: UpdateTrailingStop_keeps UpdateCurrentPrice_keeps)
  from 2(1) [OF this s1(1)] obtain s' where
    "TrailingStopPrice (trailPrices (UpdateTrailingStop ?q) ticks) = Some s'" "s1 \<le> s'"
    by blast
  with s1 show ?case by fastforce
qed

lemma trailPrices_append:
  "trailPrices p (xs @ ys) = trailPrices (trailPrices p xs) ys"
  by (induction p xs rule: trailPrices.induct) simp_all

lemma trailPrices_Side: "Side (trailPrices p ticks) = Side p"
  by (induction p ticks rule: trailPrices.induct)
    (simp_all add: UpdateTrailingStop_keeps UpdateCurrentPrice_keeps)

text \<open>
  C2: on an open position with a trailing-stop percentage \<open>pct\<close>, \<open>UpdateTrailingStop\<close>
  sets the trailing stop price of a long position to the larger of the existing stop
  and \<open>current price * (1 - pct / 100)\<close>, and of a short position to the smaller of the
  existing stop and \<open>current price * (1 + pct / 100)\<close> (to the new value itself when no
  stop exists yet). Hence, for a long position, a stop that stands after some price
  updates, each followed by \<open>UpdateTrailingStop\<close>, still stands and is no lower after any
  further such updates.
\<close>

theorem C2_trailing_stop_ratchet:
  "(Status p = PositionStatusOpen \<and> TrailingStop p = Some pct \<and> Side p = PositionSideLong \<longrightarrow>
      TrailingStopPrice (UpdateTrailingStop p) =
        Some (case TrailingStopPrice p of
                None \<Rightarrow> CurrentPrice p * (1 - pct / 100)
              | Some old \<Rightarrow> max old (CurrentPrice p * (1 - pct / 100))))
   \<and> (Status p = PositionStatusOpen \<and> TrailingStop p = Some pct \<and> Side p = PositionSideShort \<longrightarrow>
      TrailingStopPrice (UpdateTrailingStop p) =
        Some (case TrailingStopPrice p of
                None \<Rightarrow> CurrentPrice p * (1 + pct / 100)
              | Some old \<Rightarrow> min old (CurrentPrice p * (1 + pct / 100))))
   \<and> (Side p = PositionSideLong \<and> TrailingStopPrice (trailPrices p ticks) = Some s \<longrightarrow>
      (\<exists>s'. TrailingStopPrice (trailPrices p (ticks @ later)) = Some s' \<and> s \<le> s'))"
proof -
  have "Side p = PositionSideLong \<and> TrailingStopPrice (trailPrices p ticks) = Some s \<longrightarrow>
      (\<exists>s'. TrailingStopPrice (trailPrices p (ticks @ later)) = Some s' \<and> s \<le> s')"
    using trailPrices_long_rises [of "trailPrices p ticks" s later]
    by (simp add: trailPrices_append trailPrices_Side)
  then show ?thesis
    using UpdateTrailingStop_long [of p pct] UpdateTrailingStop_short [of p pct] by blast
qed

theorem C2_trailing_stop_ratchet_witness:
  "TrailingStopPrice (trailPrices (scenarioPosition\<lparr>TrailingStop := Some 25\<rparr>) [(5, 120)]) = Some 90
   \<and> TrailingStopPrice (trailPrices (scenarioPosition\<lparr>TrailingStop := Some 25\<rparr>)
        ([(5, 120)] @ [(6, 110), (7, 130)])) = Some 97.5
   \<and> TrailingStopPrice (UpdateTrailingStop
        (scenarioPosition\<lparr>TrailingStop := Some 25, TrailingStopPrice := Some 95\<rparr>)) = Some 95
   \<and> TrailingStopPrice (UpdateTrailingStop
        (scenarioPosition\<lparr>Side := PositionSideShort, TrailingStop := Some 25,
           TrailingStopPrice := Some 130\<rparr>)) = Some 125"
proof -
  let ?p = "scenarioPosition\<lparr>TrailingStop := Some 25\<rparr>"
  have s: "Status scenarioPosition = PositionStatusOpen" "Side scenarioPosition = PositionSideLong"
    "CurrentPrice scenarioPosition = 100" "TrailingStopPrice scenarioPosition = None"
    by (simp_all add: scenarioPosition_def scenarioRequest_def BeforeCreate_closed zeroPosition_def)
  let ?q = "UpdateCurrentPrice 5 120 ?p"
  have q: "Status ?q = PositionStatusOpen" "Side ?q = PositionSideLong" "CurrentPrice ?q = 120"
    "TrailingStopPrice ?q = None" "TrailingStop ?q = Some 25"
    by (simp_all add: UpdateCurrentPrice_keeps UpdateCurrentPrice_sets s)
  have t1: "TrailingStopPrice (trailPrices ?p [(5, 120)]) = Some 90"
    using C2_trailing_stop_ratchet [of ?q 25] q by simp
  from C2_trailing_stop_ratchet [of ?p 25 "[(5, 120)]" 90 "[(6, 110), (7, 130)]"] t1 s
  have later: "\<exists>s'. TrailingStopPrice (trailPrices ?p ([(5, 120)] @ [(6, 110), (7, 130)])) = Some s'
      \<and> 90 \<le> s'"
    by simp
  let ?r = "UpdateTrailingStop ?q"
  have r: "TrailingStopPrice ?r = Some 90" using t1 by simp
  have r': "Status ?r = PositionStatusOpen" "Side ?r = PositionSideLong" "TrailingStop ?r = Some 25"
    by (simp_all add: UpdateTrailingStop_keeps q)
  let ?q2 = "UpdateCurrentPrice 6 110 ?r"
  have q2: "Status ?q2 = PositionStatusOpen" "Side ?q2 = PositionSideLong" "CurrentPrice ?q2 = 110"
    "TrailingStopPrice ?q2 = Some 90" "TrailingStop ?q2 = Some 25"
    by (simp_all add: UpdateCurrentPrice_keeps UpdateCurrentPrice_sets r r')
  let ?r2 = "UpdateTrailingStop ?q2"
  have r2: "TrailingStopPrice ?r2 = Some 90"
    using C2_trailing_stop_ratchet [of ?q2 25] q2 by simp
  have r2': "Status ?r2 = PositionStatusOpen" "Side ?r2 = PositionSideLong" "TrailingStop ?r2 = Some 25"
    by (simp_all add: UpdateTrailingStop_keeps q2)
  let ?q3 = "UpdateCurrentPrice 7 130 ?r2"
  have q3: "Status ?q3 = PositionStatusOpen" "Side ?q3 = PositionSideLong" "CurrentPrice ?q3 = 130"
    "TrailingStopPrice ?q3 = Some 90" "TrailingStop ?q3 = Some 25"
    by (simp_all add: UpdateCurrentPrice_keeps UpdateCurrentPrice_sets r2 r2')
  have t3: "TrailingStopPrice (UpdateTrailingStop ?q3) = Some 97.5"
    using C2_trailing_stop_ratchet [of ?q3 25] q3 by simp
  have t2: "TrailingStopPrice (trailPrices ?p ([(5, 120)] @ [(6, 110), (7, 130)])) = Some 97.5"
    using t3 by simp
  have u: "TrailingStopPrice (UpdateTrailingStop
        (scenarioPosition\<lparr>TrailingStop := Some 25, TrailingStopPrice := Some 95\<rparr>)) = Some 95"
    using C2_trailing_stop_ratchet [of "scenarioPosition\<lparr>TrailingStop := Some 25,
      TrailingStopPrice := Some 95\<rparr>" 25] s by simp
  have v: "TrailingStopPrice (UpdateTrailingStop
        (scenarioPosition\<lparr>Side := PositionSideShort, TrailingStop := Some 25,
           TrailingStopPrice := Some 130\<rparr>)) = Some 125"
    using C2_trailing_stop_ratchet [of "scenarioPosition\<lparr>Side := PositionSideShort,
      TrailingStop := Some 25, TrailingStopPrice := Some 130\<rparr>" 25] s by simp
  from t1 t2 u v later show ?thesis by blast
qed


subsection \<open>Partial exits and DCA entries\<close>

lemma scenarioPosition_fields:
  "Status scenarioPosition = PositionStatusOpen"
  "EntryQuantity scenarioPosition = 10"
  "CurrentQuantity scenarioPosition = 10"
  "CurrentPrice scenarioPosition = 100"
  "CurrentValue scenarioPosition = 1000"
  "RealizedPnL scenarioPosition = 0"
  "PartialExits scenarioPosition = []"
  by (simp_all add: scenarioPosition_def scenarioRequest_def BeforeCreate_closed zeroPosition_def)

text \<open>
  C3, as the specification states it, is false: an exit of 15 units from the position
  that holds 10 is outside \<open>0 < quantity \<le> current_quantity\<close>, yet \<open>AddPartialExit\<close>
  returns a changed position: the exit is recorded, the realized PnL has grown and the
  status is \<open>closed\<close>.
\<close>

theorem C3_partial_exit_counterexample:
  "\<not> (0 < exit_Quantity (scenarioExit 15)
        \<and> exit_Quantity (scenarioExit 15) \<le> CurrentQuantity scenarioPosition)
   \<and> AddPartialExit (scenarioExit 15) scenarioPosition \<noteq> scenarioPosition
   \<and> PartialExits (AddPartialExit (scenarioExit 15) scenarioPosition) = [scenarioExit 15]
   \<and> RealizedPnL (AddPartialExit (scenarioExit 15) scenarioPosition) = 150
   \<and> Status (AddPartialExit (scenarioExit 15) scenarioPosition) = PositionStatusClosed"
proof -
  have q: "exit_Quantity (scenarioExit 15) = 15" "exit_PnL (scenarioExit 15) = 150"
    by (simp_all add: scenarioExit_def)
  have a: "PartialExits (AddPartialExit (scenarioExit 15) scenarioPosition) = [scenarioExit 15]"
    by (simp add: AddPartialExit_closed scenarioPosition_fields q)
  have b: "RealizedPnL (AddPartialExit (scenarioExit 15) scenarioPosition) = 150"
    by (simp add: AddPartialExit_closed scenarioPosition_fields q)
  have c: "Status (AddPartialExit (scenarioExit 15) scenarioPosition) = PositionStatusClosed"
    by (simp add: AddPartialExit_closed scenarioPosition_fields q)
  have d: "AddPartialExit (scenarioExit 15) scenarioPosition \<noteq> scenarioPosition"
  proof
    assume "AddPartialExit (scenarioExit 15) scenarioPosition = scenarioPosition"
    then have "Status (AddPartialExit (scenarioExit 15) scenarioPosition) = Status scenarioPosition"
      by simp
    then show False by (simp add: c scenarioPosition_fields)
  qed
  have e: "\<not> (0 < exit_Quantity (scenarioExit 15)
        \<and> exit_Quantity (scenarioExit 15) \<le> CurrentQuantity scenarioPosition)"
    by (simp add: q scenarioPosition_fields)
  from a b c d e show ?thesis by blast
qed

text \<open>
  C3 (amended): \<open>AddPartialExit\<close> has no error result and applies every exit. It appends
  the exit and adds the exit's PnL to the realized PnL; when the exit's quantity is below
  the current quantity it decrements the current quantity by it, sets the current value
  to current price times the new quantity and sets the status to \<open>partial\<close>; otherwise
  (the residual is zero or negative) it sets current quantity and current value to 0 and
  the status to \<open>closed\<close>.
\<close>

theorem C3_partial_exit:
  "PartialExits (AddPartialExit exit p) = PartialExits p @ [exit]
   \<and> RealizedPnL (AddPartialExit exit p) = RealizedPnL p + exit_PnL exit
   \<and> (exit_Quantity exit < CurrentQuantity p \<longrightarrow>
        CurrentQuantity (AddPartialExit exit p) = CurrentQuantity p - exit_Quantity exit
        \<and> CurrentValue (AddPartialExit exit p)
            = CurrentPrice p * (CurrentQuantity p - exit_Quantity exit)
        \<and> Status (AddPartialExit exit p) = PositionStatusPartial)
   \<and> (CurrentQuantity p \<le> exit_Quantity exit \<longrightarrow>
        CurrentQuantity (AddPartialExit exit p) = 0
        \<and> CurrentValue (AddPartialExit exit p) = 0
        \<and> Status (AddPartialExit exit p) = PositionStatusClosed)"
  by (simp add: AddPartialExit_closed)

theorem C3_partial_exit_witness:
  "CurrentQuantity (AddPartialExit (scenarioExit 4) scenarioPosition) = 6
   \<and> CurrentValue (AddPartialExit (scenarioExit 4) scenarioPosition) = 600
   \<and> Status (AddPartialExit (scenarioExit 4) scenarioPosition) = PositionStatusPartial
   \<and> RealizedPnL (AddPartialExit (scenarioExit 4) scenarioPosition) = 40
   \<and> CurrentQuantity (AddPartialExit (scenarioExit 10) scenarioPosition) = 0
   \<and> Status (AddPartialExit (scenarioExit 10) scenarioPosition) = PositionStatusClosed"
  using C3_partial_exit [of "scenarioExit 4" scenarioPosition]
    C3_partial_exit [of "scenarioExit 10" scenarioPosition]
  by (simp add: scenarioPosition_fields scenarioExit_def)

text \<open>
  C8: \<open>AddDCAEntry\<close> sets both entry quantity and current quantity to the old entry
  quantity plus the entry's quantity, whatever the current quantity was; after a partial
  exit the quantity that the exit removed is back in the current quantity.
\<close>

theorem C8_dca_resets_current_quantity:
  "CurrentQuantity (AddDCAEntry entry p) = EntryQuantity p + dca_Quantity entry
   \<and> EntryQuantity (AddDCAEntry entry p) = EntryQuantity p + dca_Quantity entry
   \<and> CurrentQuantity (AddDCAEntry entry (AddPartialExit exit p))
       = EntryQuantity p + dca_Quantity entry
   \<and> PartialExits (AddDCAEntry entry (AddPartialExit exit p)) = PartialExits p @ [exit]"
  by (simp add: AddDCAEntry_closed AddPartialExit_closed)

theorem C8_dca_resets_current_quantity_witness:
  "CurrentQuantity (AddPartialExit (scenarioExit 4) scenarioPosition) = 6
   \<and> CurrentQuantity (AddDCAEntry (scenarioDCA 5) (AddPartialExit (scenarioExit 4) scenarioPosition))
       = 15"
  using C8_dca_resets_current_quantity [of "scenarioDCA 5" scenarioPosition "scenarioExit 4"]
  by (simp add: AddPartialExit_closed scenarioPosition_fields scenarioExit_def scenarioDCA_def)


lemma calculateTotalFees_shape: "\<exists>x. calculateTotalFees p = p\<lparr>TotalFees := x\<rparr>"
proof -
  have "calculateTotalFees p = p\<lparr>TotalFees := TotalFees (calculateTotalFees p)\<rparr>"
    by (simp add: calculateTotalFees_def Let_def split: option.split)
  then show ?thesis by blast
qed

lemma BeforeUpdate_CurrentQuantity:
  "CurrentQuantity (BeforeUpdate now p) = CurrentQuantity p"
proof -
  define p1 where "p1 = (if Status p = PositionStatusOpen
       then p\<lparr>HoldDuration := time_Since now (EntryTime p)\<rparr>
       else (case ExitTime p of None \<Rightarrow> p | Some x \<Rightarrow> p\<lparr>HoldDuration := x - EntryTime p\<rparr>))"
  have e: "BeforeUpdate now p = calculateTotalFees (updateTrackingValues (updatePerformanceMetrics p1))"
    by (simp only: BeforeUpdate_def p1_def Let_def)
  have 1: "CurrentQuantity p1 = CurrentQuantity p"
    by (simp add: p1_def split: option.split)
  obtain a b c d e' where 2: "updatePerformanceMetrics p1 =
     p1\<lparr>UnrealizedPnL := a, UnrealizedPnLPercent := b, ROI := c, RealizedPnL := d,
       RealizedPnLPercent := e'\<rparr>"
    using updatePerformanceMetrics_shape by blast
  obtain x where 3: "calculateTotalFees (updateTrackingValues (updatePerformanceMetrics p1)) =
      (updateTrackingValues (updatePerformanceMetrics p1))\<lparr>TotalFees := x\<rparr>"
    using calculateTotalFees_shape by blast
  have "CurrentQuantity (BeforeUpdate now p)
      = CurrentQuantity (updateTrackingValues (updatePerformanceMetrics p1))"
    unfolding e 3 by simp
  also have "\<dots> = CurrentQuantity (updatePerformanceMetrics p1)"
    by (simp add: updateTrackingValues_closed)
  also have "\<dots> = CurrentQuantity p1"
    unfolding 2 by simp
  finally show ?thesis
    by (simp add: 1)
qed

lemma AddAdjustment_CurrentQuantity:
  "CurrentQuantity (AddAdjustment adjustment p) = CurrentQuantity p"
  "EntryQuantity (AddAdjustment adjustment p) = EntryQuantity p"
  "Status (AddAdjustment adjustment p) = Status p"
  "PartialExits (AddAdjustment adjustment p) = PartialExits p"
proof -
  obtain a b c d where x: "AddAdjustment adjustment p =
     p\<lparr>Adjustments := a, StopLoss := b, TakeProfit := c, TrailingStop := d\<rparr>"
    using AddAdjustment_shape by blast
  show "CurrentQuantity (AddAdjustment adjustment p) = CurrentQuantity p"
    "EntryQuantity (AddAdjustment adjustment p) = EntryQuantity p"
    "Status (AddAdjustment adjustment p) = Status p"
    "PartialExits (AddAdjustment adjustment p) = PartialExits p"
    by (simp_all add: x)
qed

lemma applyOp_nonneg:
  "0 \<le> CurrentQuantity p \<Longrightarrow>
   (case x of OpAddDCAEntry entry \<Rightarrow> 0 \<le> EntryQuantity p + dca_Quantity entry | _ \<Rightarrow> True) \<Longrightarrow>
   0 \<le> CurrentQuantity (applyOp p x)"
  by (cases x)
    (simp_all add: UpdateCurrentPrice_keeps UpdateTrailingStop_keeps AddAdjustment_CurrentQuantity
      AddPartialExit_closed AddDCAEntry_closed)

lemma applyOps_nonneg:
  "0 \<le> CurrentQuantity p \<Longrightarrow> dcaTotalsNonneg p ops \<Longrightarrow> 0 \<le> CurrentQuantity (applyOps p ops)"
proof (induction p ops rule: applyOps.induct)
  case (1 p)
  then show ?case by simp
next
  case (2 p x xs)
  then have "0 \<le> CurrentQuantity (applyOp p x)"
    using applyOp_nonneg [of p x] by simp
  with 2 show ?case by simp
qed

text \<open>
  C9, as stated, is false: \<open>AddDCAEntry\<close> is a Position operation that does not preserve
  \<open>current_quantity \<ge> 0\<close>. On the position that holds 10 units, a DCA entry whose
  quantity is -20 leaves the current quantity at -10.
\<close>

theorem C9_residual_quantity_counterexample:
  "0 \<le> CurrentQuantity scenarioPosition
   \<and> CurrentQuantity (AddDCAEntry (scenarioDCA (- 20)) scenarioPosition) = - 10
   \<and> CurrentQuantity (AddDCAEntry (scenarioDCA (- 20)) scenarioPosition) < 0"
  by (simp add: AddDCAEntry_closed scenarioPosition_fields scenarioDCA_def)

text \<open>
  C9 (amended): \<open>AddPartialExit\<close> leaves \<open>current_quantity \<ge> 0\<close> for every position and
  every exit; with an exit whose quantity is greater than or equal to the current
  quantity it does not fail but sets current quantity and current value to exactly 0 and
  the status to \<open>closed\<close>. \<open>UpdateCurrentPrice\<close>, \<open>UpdateTrailingStop\<close>, \<open>AddAdjustment\<close>
  and \<open>BeforeUpdate\<close> do not change the current quantity. \<open>AddDCAEntry\<close> and
  \<open>BeforeCreate\<close> assign it without a clamp: it is non-negative afterwards exactly when
  the new total entry quantity (for \<open>BeforeCreate\<close>, the entry quantity) is. So along a
  sequence of calls in which every DCA entry leaves a non-negative total, a non-negative
  current quantity stays non-negative.
\<close>

theorem C9_residual_quantity:
  "0 \<le> CurrentQuantity (AddPartialExit exit p)
   \<and> (CurrentQuantity p \<le> exit_Quantity exit \<longrightarrow>
        CurrentQuantity (AddPartialExit exit p) = 0
        \<and> CurrentValue (AddPartialExit exit p) = 0
        \<and> Status (AddPartialExit exit p) = PositionStatusClosed)
   \<and> CurrentQuantity (UpdateCurrentPrice now price p) = CurrentQuantity p
   \<and> CurrentQuantity (UpdateTrailingStop p) = CurrentQuantity p
   \<and> CurrentQuantity (AddAdjustment adjustment p) = CurrentQuantity p
   \<and> CurrentQuantity (BeforeUpdate now p) = CurrentQuantity p
   \<and> (0 \<le> CurrentQuantity (AddDCAEntry entry p) \<longleftrightarrow> 0 \<le> EntryQuantity p + dca_Quantity entry)
   \<and> (0 \<le> CurrentQuantity (BeforeCreate now p) \<longleftrightarrow> 0 \<le> EntryQuantity p)
   \<and> (0 \<le> CurrentQuantity p \<and> dcaTotalsNonneg p ops \<longrightarrow> 0 \<le> CurrentQuantity (applyOps p ops))"
proof -
  have a: "0 \<le> CurrentQuantity (AddPartialExit exit p)"
    by (simp add: AddPartialExit_closed)
  have b: "CurrentQuantity p \<le> exit_Quantity exit \<longrightarrow>
        CurrentQuantity (AddPartialExit exit p) = 0
        \<and> CurrentValue (AddPartialExit exit p) = 0
        \<and> Status (AddPartialExit exit p) = PositionStatusClosed"
    by (simp add: AddPartialExit_closed)
  have c: "0 \<le> CurrentQuantity (AddDCAEntry entry p) \<longleftrightarrow> 0 \<le> EntryQuantity p + dca_Quantity entry"
    by (simp add: AddDCAEntry_closed)
  have d: "0 \<le> CurrentQuantity (BeforeCreate now p) \<longleftrightarrow> 0 \<le> EntryQuantity p"
    by (simp add: BeforeCreate_closed)
  from a b c d applyOps_nonneg [of p ops] show ?thesis
    by (simp add: UpdateCurrentPrice_keeps UpdateTrailingStop_keeps AddAdjustment_CurrentQuantity
        BeforeUpdate_CurrentQuantity)
qed

theorem C9_residual_quantity_witness:
  "CurrentQuantity scenarioPosition \<le> exit_Quantity (scenarioExit 15)
   \<and> CurrentQuantity (AddPartialExit (scenarioExit 15) scenarioPosition) = 0
   \<and> CurrentValue (AddPartialExit (scenarioExit 15) scenarioPosition) = 0
   \<and> Status (AddPartialExit (scenarioExit 15) scenarioPosition) = PositionStatusClosed
   \<and> dcaTotalsNonneg scenarioPosition
        [OpAddDCAEntry (scenarioDCA 5), OpUpdateCurrentPrice 5 85, OpAddPartialExit (scenarioExit 20)]
   \<and> 0 \<le> CurrentQuantity (applyOps scenarioPosition
        [OpAddDCAEntry (scenarioDCA 5), OpUpdateCurrentPrice 5 85, OpAddPartialExit (scenarioExit 20)])"
proof -
  have q: "exit_Quantity (scenarioExit 15) = 15" "dca_Quantity (scenarioDCA 5) = 5"
    by (simp_all add: scenarioExit_def scenarioDCA_def)
  have ok: "dcaTotalsNonneg scenarioPosition
        [OpAddDCAEntry (scenarioDCA 5), OpUpdateCurrentPrice 5 85, OpAddPartialExit (scenarioExit 20)]"
    by (simp add: scenarioPosition_fields q)
  have le: "CurrentQuantity scenarioPosition \<le> exit_Quantity (scenarioExit 15)"
    "0 \<le> CurrentQuantity scenarioPosition"
    by (simp_all add: scenarioPosition_fields q)
  from C9_residual_quantity [of "scenarioExit 15" scenarioPosition 5 85 _
      "scenarioDCA 5"
      "[OpAddDCAEntry (scenarioDCA 5), OpUpdateCurrentPrice 5 85, OpAddPartialExit (scenarioExit 20)]"]
    ok le
  show ?thesis by blast
qed

subsection \<open>Quantity conservation\<close>

lemma exitedQuantity_keeps:
  "exitedQuantity (UpdateCurrentPrice now price p) = exitedQuantity p"
  "exitedQuantity (UpdateTrailingStop p) = exitedQuantity p"
  "exitedQuantity (AddAdjustment adjustment p) = exitedQuantity p"
  by (simp_all add: exitedQuantity_def UpdateCurrentPrice_keeps UpdateTrailingStop_keeps
      AddAdjustment_CurrentQuantity)

lemma quantityInv_AddPartialExit:
  assumes "quantityInv p" and "0 < exit_Quantity exit"
  shows "quantityInv (AddPartialExit exit p)"
proof (cases "CurrentQuantity p - exit_Quantity exit \<le> 0")
  case True
  then show ?thesis
    by (simp add: quantityInv_def AddPartialExit_closed)
next
  case False
  from assms(1) have "Status p \<noteq> PositionStatusClosed \<or> CurrentQuantity p = 0"
    by (auto simp add: quantityInv_def)
  with False assms(2) have open_or_partial: "Status p \<noteq> PositionStatusClosed"
    by auto
  with assms(1) have "exitedQuantity p + CurrentQuantity p = EntryQuantity p"
    by (auto simp add: quantityInv_def exitedQuantity_def)
  with False show ?thesis
    by (simp add: quantityInv_def AddPartialExit_closed exitedQuantity_def)
qed

lemma quantityInv_AddDCAEntry:
  assumes "quantityInv p" and "0 < dca_Quantity entry" and "PartialExits p = []"
  shows "quantityInv (AddDCAEntry entry p)"
proof -
  from assms(1,3) have "Status p = PositionStatusOpen" "CurrentQuantity p = EntryQuantity p"
    "0 < CurrentQuantity p"
    by (auto simp add: quantityInv_def)
  with assms(2,3) show ?thesis
    by (simp add: quantityInv_def AddDCAEntry_closed)
qed

lemma quantityInv_applyOp:
  "quantityInv p \<Longrightarrow> opAdmissible p x \<Longrightarrow> quantityInv (applyOp p x)"
proof (cases x)
  case (OpUpdateCurrentPrice now price)
  assume "quantityInv p"
  then show ?thesis
    by (simp add: OpUpdateCurrentPrice quantityInv_def UpdateCurrentPrice_keeps exitedQuantity_keeps)
next
  case OpUpdateTrailingStop
  assume "quantityInv p"
  then show ?thesis
    by (simp add: OpUpdateTrailingStop quantityInv_def UpdateTrailingStop_keeps exitedQuantity_keeps)
next
  case (OpAddPartialExit exit)
  assume "quantityInv p" "opAdmissible p x"
  then show ?thesis
    by (simp add: OpAddPartialExit quantityInv_AddPartialExit)
next
  case (OpAddDCAEntry entry)
  assume "quantityInv p" "opAdmissible p x"
  then show ?thesis
    by (simp add: OpAddDCAEntry quantityInv_AddDCAEntry)
next
  case (OpAddAdjustment adjustment)
  assume "quantityInv p"
  then show ?thesis
    by (simp add: OpAddAdjustment quantityInv_def AddAdjustment_CurrentQuantity exitedQuantity_keeps)
qed

lemma quantityInv_applyOps:
  "quantityInv p \<Longrightarrow> opsAdmissible p ops \<Longrightarrow> quantityInv (applyOps p ops)"
  by (induction p ops rule: applyOps.induct) (simp_all add: quantityInv_applyOp)

lemma quantityInv_BeforeCreate:
  "Status p = PositionStatusOpen \<Longrightarrow> PartialExits p = [] \<Longrightarrow> 0 < EntryQuantity p \<Longrightarrow>
     quantityInv (BeforeCreate now p)"
  by (simp add: quantityInv_def BeforeCreate_closed)

lemma quantityInv_conservation:
  assumes "quantityInv p"
  shows "(Status p = PositionStatusOpen \<or> Status p = PositionStatusPartial \<longrightarrow>
            exitedQuantity p + CurrentQuantity p = EntryQuantity p)
         \<and> (CurrentQuantity p = 0 \<longleftrightarrow> Status p = PositionStatusClosed)"
  using assms by (auto simp add: quantityInv_def exitedQuantity_def)

text \<open>
  What the code does maintain: from a freshly opened position with a positive entry
  quantity, along any sequence of calls in which exits and DCA entries carry positive
  quantities and every \<open>AddDCAEntry\<close> comes before the first partial exit, the recorded
  exits plus the current quantity equal the entry quantity while the status is \<open>open\<close>
  or \<open>partial\<close>, and the current quantity is 0 exactly when the status is \<open>closed\<close>.
  \<open>AddPartialExit\<close> and \<open>UpdateCurrentPrice\<close> keep this up on their own.
\<close>

lemma quantity_conservation_dca_first:
  assumes "Status p = PositionStatusOpen" and "PartialExits p = []" and "0 < EntryQuantity p"
    and "opsAdmissible (BeforeCreate now p) ops"
  shows
    "(Status (applyOps (BeforeCreate now p) ops) = PositionStatusOpen
        \<or> Status (applyOps (BeforeCreate now p) ops) = PositionStatusPartial \<longrightarrow>
      exitedQuantity (applyOps (BeforeCreate now p) ops)
        + CurrentQuantity (applyOps (BeforeCreate now p) ops)
        = EntryQuantity (applyOps (BeforeCreate now p) ops))
     \<and> (CurrentQuantity (applyOps (BeforeCreate now p) ops) = 0
        \<longleftrightarrow> Status (applyOps (BeforeCreate now p) ops) = PositionStatusClosed)"
proof -
  have "quantityInv (BeforeCreate now p)"
    using assms(1-3) by (rule quantityInv_BeforeCreate)
  then have "quantityInv (applyOps (BeforeCreate now p) ops)"
    using assms(4) by (rule quantityInv_applyOps)
  then show ?thesis
    by (rule quantityInv_conservation)
qed

text \<open>
  C1 does not hold of the code. The position is freshly opened with 10 units; a partial
  exit of 4 leaves status \<open>partial\<close>, exited quantity 4 and current quantity 6, which add
  up to the entry quantity 10. The DCA entry of 5 that follows sets the current quantity
  to the new entry quantity 15 instead of adding 5 to the 6 that are left: the status is
  still \<open>partial\<close>, and 4 + 15 is not 15. After a full exit of 10 the status is \<open>closed\<close>
  with current quantity 0, and the same DCA entry leaves a \<open>closed\<close> position with
  current quantity 15. Both sequences consist of \<open>AddPartialExit\<close> and \<open>AddDCAEntry\<close>
  calls with positive quantities within the position's holdings.
\<close>

theorem C1_quantity_conservation_failing_input:
  "Status (applyOps scenarioPosition [OpAddPartialExit (scenarioExit 4)]) = PositionStatusPartial
   \<and> exitedQuantity (applyOps scenarioPosition [OpAddPartialExit (scenarioExit 4)])
       + CurrentQuantity (applyOps scenarioPosition [OpAddPartialExit (scenarioExit 4)])
     = EntryQuantity (applyOps scenarioPosition [OpAddPartialExit (scenarioExit 4)])
   \<and> Status (applyOps scenarioPosition
       [OpAddPartialExit (scenarioExit 4), OpAddDCAEntry (scenarioDCA 5)]) = PositionStatusPartial
   \<and> exitedQuantity (applyOps scenarioPosition
       [OpAddPartialExit (scenarioExit 4), OpAddDCAEntry (scenarioDCA 5)]) = 4
   \<and> CurrentQuantity (applyOps scenarioPosition
       [OpAddPartialExit (scenarioExit 4), OpAddDCAEntry (scenarioDCA 5)]) = 15
   \<and> EntryQuantity (applyOps scenarioPosition
       [OpAddPartialExit (scenarioExit 4), OpAddDCAEntry (scenarioDCA 5)]) = 15
   \<and> exitedQuantity (applyOps scenarioPosition
         [OpAddPartialExit (scenarioExit 4), OpAddDCAEntry (scenarioDCA 5)])
       + CurrentQuantity (applyOps scenarioPosition
         [OpAddPartialExit (scenarioExit 4), OpAddDCAEntry (scenarioDCA 5)])
     \<noteq> EntryQuantity (applyOps scenarioPosition
         [OpAddPartialExit (scenarioExit 4), OpAddDCAEntry (scenarioDCA 5)])
   \<and> Status (applyOps scenarioPosition
       [OpAddPartialExit (scenarioExit 10), OpAddDCAEntry (scenarioDCA 5)]) = PositionStatusClosed
   \<and> CurrentQuantity (applyOps scenarioPosition
       [OpAddPartialExit (scenarioExit 10), OpAddDCAEntry (scenarioDCA 5)]) = 15"
  by (simp add: AddDCAEntry_closed AddPartialExit_closed scenarioPosition_fields
      scenarioExit_def scenarioDCA_def exitedQuantity_def)

end
